theory Spec2Isabelle
  imports Complex_Main "HOL-Library.Multiset" "HOL-Library.Sublist" "HOL-Library.AList"
begin

section \<open>Values of the JavaScript runtime\<close>

text \<open>
  The two commands (\<open>edit\<close> and \<open>analyze\<close>) hand the text of the oracle to \<open>JSON.parse\<close>
  and then work on whatever value comes back: the interfaces of the TypeScript source are
  erased at run time. The model therefore has two layers. The parsers work on untyped
  JSON values (\<open>json\<close>); the applier, the aggregation and the command flow work on records
  that follow the declared interfaces, and \<open>as_FileAnalysis\<close>, \<open>as_AnalysisResult\<close> say when
  an untyped value inhabits an interface.

  Conventions. A text is a byte string: the UTF-8 encoding of the JavaScript string. The
  operations modelled here observe of a string only whether it is empty, whether it equals
  an ASCII name, and its white space, all of which the encoding preserves. A JSON number
  is kept as an exact decimal \<open>m * 10 ^ e\<close> (constructor \<open>JNum m e\<close>); the rounding of IEEE
  doubles is not modelled. An exception is a value of type \<open>exn\<close>, and a computation that
  may throw returns \<open>exn + 'a\<close> with \<open>Inl\<close> for the thrown exception.
\<close>

datatype exn = Error string | TypeError | SyntaxError | IOError string

datatype json =
    JNull
  | JBool bool
  | JNum int int
  | JStr string
  | JArr "json list"
  | JObj "(string \<times> json) list"

text \<open>A number as an operator sees it: a finite value, \<open>NaN\<close> or an infinity.\<close>

datatype jsnum = Fin rat | NaN | PInf | NInf

definition code :: "char \<Rightarrow> nat" where
  "code c = of_char c"

definition is_digit :: "char \<Rightarrow> bool" where
  "is_digit c = (0x30 \<le> code c \<and> code c \<le> 0x39)"

definition digit_val :: "char \<Rightarrow> nat" where
  "digit_val c = code c - 0x30"

definition digits_val :: "string \<Rightarrow> nat" where
  "digits_val ds = foldl (\<lambda>n d. 10 * n + digit_val d) 0 ds"

definition hex_val :: "char \<Rightarrow> nat option" where
  "hex_val c =
     (if is_digit c then Some (digit_val c)
      else if 0x61 \<le> code c \<and> code c \<le> 0x66 then Some (code c - 0x61 + 10)
      else if 0x41 \<le> code c \<and> code c \<le> 0x46 then Some (code c - 0x41 + 10)
      else None)"

definition dec_rat :: "int \<Rightarrow> int \<Rightarrow> rat" where
  "dec_rat m e = (if 0 \<le> e then of_int (m * 10 ^ nat e) else of_int m / of_int (10 ^ nat (- e)))"

section \<open>JSON.parse\<close>

text \<open>
  \<open>JSON.parse\<close> in two passes: a lexer from the text to tokens, and a pushdown automaton
  over the tokens. \<open>None\<close> stands for the \<open>SyntaxError\<close> that \<open>JSON.parse\<close> throws. The
  grammar is that of ECMA-404: the white space is space, tab, line feed and carriage
  return; a number has no leading zero, and digits after a point or an exponent mark; a
  string holds no raw control character and only the nine escapes. The escape of a code
  unit (the letter u and four hexadecimal digits) contributes the UTF-8 bytes of that unit.
\<close>

datatype token =
    TLBrace | TRBrace | TLBrack | TRBrack | TColon | TComma
  | TStr string | TNum int int | TTrue | TFalse | TNull

definition utf8 :: "nat \<Rightarrow> string" where
  "utf8 u =
     (if u < 0x80 then [char_of u]
      else if u < 0x800 then [char_of (0xC0 + u div 64), char_of (0x80 + u mod 64)]
      else [char_of (0xE0 + u div 4096), char_of (0x80 + (u div 64) mod 64),
            char_of (0x80 + u mod 64)])"

definition unescape :: "char \<Rightarrow> char option" where
  "unescape e =
     (if e = CHR 0x22 then Some (CHR 0x22)
      else if e = CHR 0x5C then Some (CHR 0x5C)
      else if e = CHR ''/'' then Some (CHR ''/'')
      else if e = CHR ''b'' then Some (CHR 0x08)
      else if e = CHR ''f'' then Some (CHR 0x0C)
      else if e = CHR ''n'' then Some (CHR 0x0A)
      else if e = CHR ''r'' then Some (CHR 0x0D)
      else if e = CHR ''t'' then Some (CHR 0x09)
      else None)"

definition hex4 :: "char \<Rightarrow> char \<Rightarrow> char \<Rightarrow> char \<Rightarrow> nat option" where
  "hex4 a b c d =
     (case (hex_val a, hex_val b, hex_val c, hex_val d) of
        (Some x, Some y, Some z, Some w) \<Rightarrow> Some (((x * 16 + y) * 16 + z) * 16 + w)
      | _ \<Rightarrow> None)"

text \<open>The characters of a string literal after its opening quote, and the text after it.\<close>

fun lex_string :: "string \<Rightarrow> (string \<times> string) option" where
  "lex_string [] = None"
| "lex_string (c # cs) =
     (if c = CHR 0x22 then Some ([], cs)
      else if c = CHR 0x5C then
        (case cs of
           [] \<Rightarrow> None
         | e # r \<Rightarrow>
             if e = CHR ''u'' then
               (case r of
                  h1 # h2 # h3 # h4 # r' \<Rightarrow>
                    (case hex4 h1 h2 h3 h4 of
                       None \<Rightarrow> None
                     | Some u \<Rightarrow> map_option (\<lambda>(s, rest). (utf8 u @ s, rest)) (lex_string r'))
                | _ \<Rightarrow> None)
             else
               (case unescape e of
                  None \<Rightarrow> None
                | Some x \<Rightarrow> map_option (\<lambda>(s, rest). (x # s, rest)) (lex_string r)))
      else if code c < 0x20 then None
      else map_option (\<lambda>(s, rest). (c # s, rest)) (lex_string cs))"

text \<open>A number literal, read in four steps: sign, integer part, fraction, exponent.\<close>

definition lex_sign :: "string \<Rightarrow> bool \<times> string" where
  "lex_sign s =
     (case s of c # r \<Rightarrow> if c = CHR ''-'' then (True, r) else (False, s) | [] \<Rightarrow> (False, s))"

definition lex_int :: "string \<Rightarrow> (string \<times> string) option" where
  "lex_int s =
     (let ip = takeWhile is_digit s
      in if ip = [] \<or> (length ip > 1 \<and> hd ip = CHR ''0'') then None
         else Some (ip, dropWhile is_digit s))"

definition lex_frac :: "string \<Rightarrow> (string \<times> string) option" where
  "lex_frac s =
     (case s of
        c # r \<Rightarrow>
          if c = CHR ''.'' then
            (if takeWhile is_digit r = [] then None
             else Some (takeWhile is_digit r, dropWhile is_digit r))
          else Some ([], s)
      | [] \<Rightarrow> Some ([], s))"

definition lex_exp_sign :: "string \<Rightarrow> bool \<times> string" where
  "lex_exp_sign r =
     (case r of
        d # t \<Rightarrow>
          if d = CHR ''-'' then (True, t) else if d = CHR ''+'' then (False, t) else (False, r)
      | [] \<Rightarrow> (False, r))"

definition lex_exp :: "string \<Rightarrow> (int \<times> string) option" where
  "lex_exp s =
     (case s of
        c # r \<Rightarrow>
          if c = CHR ''e'' \<or> c = CHR ''E'' then
            (case lex_exp_sign r of (neg, r') \<Rightarrow>
               if takeWhile is_digit r' = [] then None
               else Some (if neg then - int (digits_val (takeWhile is_digit r'))
                          else int (digits_val (takeWhile is_digit r')),
                          dropWhile is_digit r'))
          else Some (0, s)
      | [] \<Rightarrow> Some (0, s))"

definition lex_number :: "string \<Rightarrow> ((int \<times> int) \<times> string) option" where
  "lex_number s =
     (case lex_sign s of (neg, s1) \<Rightarrow>
      (case lex_int s1 of None \<Rightarrow> None | Some (ip, s2) \<Rightarrow>
      (case lex_frac s2 of None \<Rightarrow> None | Some (fp, s3) \<Rightarrow>
      (case lex_exp s3 of None \<Rightarrow> None | Some (ex, s4) \<Rightarrow>
         Some ((if neg then - int (digits_val (ip @ fp)) else int (digits_val (ip @ fp)),
                ex - int (length fp)), s4)))))"

lemma lex_string_length: "lex_string s = Some (x, rest) \<Longrightarrow> length rest < length s"
proof (induction s arbitrary: x rest rule: lex_string.induct)
  case 1
  then show ?case by simp
next
  case (2 c cs)
  then show ?case
    by (auto split: if_splits list.splits option.splits) force+
qed

lemma lex_sign_length: "lex_sign s = (neg, r) \<Longrightarrow> length r \<le> length s"
  by (auto simp: lex_sign_def split: list.splits if_splits)

lemma lex_int_length: "lex_int s = Some (ip, r) \<Longrightarrow> length r < length s"
proof -
  assume a: "lex_int s = Some (ip, r)"
  then have ne: "takeWhile is_digit s \<noteq> []" and r: "r = dropWhile is_digit s"
    by (auto simp: lex_int_def Let_def split: if_splits)
  have "length s = length (takeWhile is_digit s) + length (dropWhile is_digit s)"
    by (metis length_append takeWhile_dropWhile_id)
  with ne r show ?thesis by simp
qed

lemma lex_frac_length: "lex_frac s = Some (fp, r) \<Longrightarrow> length r \<le> length s"
  using length_dropWhile_le [of is_digit "tl s"]
  by (auto simp: lex_frac_def split: list.splits if_splits)

lemma lex_exp_sign_length: "lex_exp_sign s = (neg, r) \<Longrightarrow> length r \<le> length s"
  by (auto simp: lex_exp_sign_def split: list.splits if_splits)

lemma lex_exp_length: "lex_exp s = Some (ex, r) \<Longrightarrow> length r \<le> length s"
proof -
  assume a: "lex_exp s = Some (ex, r)"
  show ?thesis
  proof (cases s)
    case Nil
    with a show ?thesis by (simp add: lex_exp_def)
  next
    case (Cons c t)
    show ?thesis
    proof (cases "c = CHR ''e'' \<or> c = CHR ''E''")
      case False
      with a Cons show ?thesis by (auto simp: lex_exp_def)
    next
      case True
      obtain neg r' where nr: "lex_exp_sign t = (neg, r')"
        by (cases "lex_exp_sign t")
      from a Cons True nr have "r = dropWhile is_digit r'"
        by (auto simp: lex_exp_def split: if_splits)
      with lex_exp_sign_length [OF nr] length_dropWhile_le [of is_digit r'] Cons
      show ?thesis by simp
    qed
  qed
qed

lemma lex_number_length:
  assumes "lex_number s = Some (x, rest)"
  shows "length rest < length s"
proof -
  obtain neg s1 where 1: "lex_sign s = (neg, s1)" by (cases "lex_sign s")
  with assms obtain ip s2 where 2: "lex_int s1 = Some (ip, s2)"
    by (auto simp: lex_number_def split: option.splits)
  with assms 1 obtain fp s3 where 3: "lex_frac s2 = Some (fp, s3)"
    by (auto simp: lex_number_def split: option.splits)
  with assms 1 2 obtain ex where 4: "lex_exp s3 = Some (ex, rest)"
    by (auto simp: lex_number_def split: option.splits)
  from lex_sign_length [OF 1] lex_int_length [OF 2] lex_frac_length [OF 3] lex_exp_length [OF 4]
  show ?thesis by simp
qed

definition is_json_ws :: "char \<Rightarrow> bool" where
  "is_json_ws c = (c = CHR '' '' \<or> c = CHR 0x09 \<or> c = CHR 0x0A \<or> c = CHR 0x0D)"

function lex :: "string \<Rightarrow> token list option" where
  "lex [] = Some []"
| "lex (c # cs) =
     (if is_json_ws c then lex cs
      else if c = CHR ''{'' then map_option (Cons TLBrace) (lex cs)
      else if c = CHR ''}'' then map_option (Cons TRBrace) (lex cs)
      else if c = CHR ''['' then map_option (Cons TLBrack) (lex cs)
      else if c = CHR '']'' then map_option (Cons TRBrack) (lex cs)
      else if c = CHR '':'' then map_option (Cons TColon) (lex cs)
      else if c = CHR '','' then map_option (Cons TComma) (lex cs)
      else if c = CHR 0x22 then
        (case lex_string cs of
           None \<Rightarrow> None
         | Some (s, rest) \<Rightarrow> map_option (Cons (TStr s)) (lex rest))
      else if c = CHR ''-'' \<or> is_digit c then
        (case lex_number (c # cs) of
           None \<Rightarrow> None
         | Some ((m, e), rest) \<Rightarrow> map_option (Cons (TNum m e)) (lex rest))
      else if take 4 (c # cs) = ''true'' then map_option (Cons TTrue) (lex (drop 4 (c # cs)))
      else if take 5 (c # cs) = ''false'' then map_option (Cons TFalse) (lex (drop 5 (c # cs)))
      else if take 4 (c # cs) = ''null'' then map_option (Cons TNull) (lex (drop 4 (c # cs)))
      else None)"
  by pat_completeness auto
termination
proof (relation "measure length", goal_cases)
  case 1
  show ?case by simp
next
  case (2 c cs)
  show ?case by simp
next
  case (3 c cs)
  show ?case by simp
next
  case (4 c cs)
  show ?case by simp
next
  case (5 c cs)
  show ?case by simp
next
  case (6 c cs)
  show ?case by simp
next
  case (7 c cs)
  show ?case by simp
next
  case (8 c cs)
  show ?case by simp
next
  case (9 c cs x2 x y)
  then show ?case using lex_string_length [of cs x y] by simp
next
  case (10 c cs x2 x y xa ya)
  then show ?case using lex_number_length [of "c # cs" "(xa, ya)" y] by simp
next
  case (11 c cs)
  show ?case by simp
next
  case (12 c cs)
  show ?case by simp
next
  case (13 c cs)
  show ?case by simp
qed

text \<open>
  The automaton. A frame is an array or an object under construction (an object frame
  holds the key whose value is being read). A key that occurs twice keeps its first
  position and takes the last value, as \<open>JSON.parse\<close> does.
\<close>

datatype frame = InArr "json list" | InObj "(string \<times> json) list" string

datatype pstate =
    ExpectValue "frame list"
  | ArrayStart "frame list"
  | AfterElement "json list" "frame list"
  | ObjectStart "frame list"
  | ExpectKey "(string \<times> json) list" "frame list"
  | ExpectColon "(string \<times> json) list" string "frame list"
  | AfterMember "(string \<times> json) list" "frame list"
  | Done json

fun complete_value :: "json \<Rightarrow> frame list \<Rightarrow> pstate" where
  "complete_value v [] = Done v"
| "complete_value v (InArr xs # st) = AfterElement (v # xs) st"
| "complete_value v (InObj ms k # st) = AfterMember (AList.update k v ms) st"

fun start_value :: "token \<Rightarrow> frame list \<Rightarrow> pstate option" where
  "start_value (TStr s) st = Some (complete_value (JStr s) st)"
| "start_value (TNum m e) st = Some (complete_value (JNum m e) st)"
| "start_value TTrue st = Some (complete_value (JBool True) st)"
| "start_value TFalse st = Some (complete_value (JBool False) st)"
| "start_value TNull st = Some (complete_value JNull st)"
| "start_value TLBrack st = Some (ArrayStart st)"
| "start_value TLBrace st = Some (ObjectStart st)"
| "start_value _ st = None"

fun pstep :: "pstate \<Rightarrow> token \<Rightarrow> pstate option" where
  "pstep (ExpectValue st) t = start_value t st"
| "pstep (ArrayStart st) t =
     (if t = TRBrack then Some (complete_value (JArr []) st) else start_value t (InArr [] # st))"
| "pstep (AfterElement xs st) t =
     (if t = TComma then Some (ExpectValue (InArr xs # st))
      else if t = TRBrack then Some (complete_value (JArr (rev xs)) st)
      else None)"
| "pstep (ObjectStart st) t =
     (case t of
        TRBrace \<Rightarrow> Some (complete_value (JObj []) st)
      | TStr k \<Rightarrow> Some (ExpectColon [] k st)
      | _ \<Rightarrow> None)"
| "pstep (ExpectKey ms st) t = (case t of TStr k \<Rightarrow> Some (ExpectColon ms k st) | _ \<Rightarrow> None)"
| "pstep (ExpectColon ms k st) t =
     (if t = TColon then Some (ExpectValue (InObj ms k # st)) else None)"
| "pstep (AfterMember ms st) t =
     (if t = TComma then Some (ExpectKey ms st)
      else if t = TRBrace then Some (complete_value (JObj ms) st)
      else None)"
| "pstep (Done v) t = None"

fun prun :: "pstate \<Rightarrow> token list \<Rightarrow> pstate option" where
  "prun s [] = Some s"
| "prun s (t # ts) = (case pstep s t of None \<Rightarrow> None | Some s' \<Rightarrow> prun s' ts)"

definition JSON_parse :: "string \<Rightarrow> json option" where
  "JSON_parse text =
     (case lex text of
        None \<Rightarrow> None
      | Some ts \<Rightarrow> (case prun (ExpectValue []) ts of Some (Done v) \<Rightarrow> Some v | _ \<Rightarrow> None))"

section \<open>Operators and property access on untyped values\<close>

text \<open>
  White space as \<open>String.prototype.trim\<close> and the conversion of a string to a number see
  it: the one-byte characters, the no-break space (two bytes) and the three-byte ones
  (U+1680, U+2000 to U+200A, U+2028, U+2029, U+202F, U+205F, U+3000, U+FEFF).
\<close>

definition is_ws1 :: "char \<Rightarrow> bool" where
  "is_ws1 a = (code a \<in> {0x09, 0x0A, 0x0B, 0x0C, 0x0D, 0x20})"

definition is_ws2 :: "char \<Rightarrow> char \<Rightarrow> bool" where
  "is_ws2 a b = (code a = 0xC2 \<and> code b = 0xA0)"

definition is_ws3 :: "char \<Rightarrow> char \<Rightarrow> char \<Rightarrow> bool" where
  "is_ws3 a b c =
     ((code a = 0xE1 \<and> code b = 0x9A \<and> code c = 0x80) \<or>
      (code a = 0xE2 \<and> code b = 0x80 \<and>
         ((0x80 \<le> code c \<and> code c \<le> 0x8A) \<or> code c \<in> {0xA8, 0xA9, 0xAF})) \<or>
      (code a = 0xE2 \<and> code b = 0x81 \<and> code c = 0x9F) \<or>
      (code a = 0xE3 \<and> code b = 0x80 \<and> code c = 0x80) \<or>
      (code a = 0xEF \<and> code b = 0xBB \<and> code c = 0xBF))"

fun trim_start :: "string \<Rightarrow> string" where
  "trim_start (a # b # c # r) =
     (if is_ws1 a then trim_start (b # c # r)
      else if is_ws2 a b then trim_start (c # r)
      else if is_ws3 a b c then trim_start r
      else a # b # c # r)"
| "trim_start [a, b] =
     (if is_ws1 a then trim_start [b] else if is_ws2 a b then [] else [a, b])"
| "trim_start [a] = (if is_ws1 a then [] else [a])"
| "trim_start [] = []"

text \<open>The same from the end of the text, on the reversed text.\<close>

fun trim_end_rev :: "string \<Rightarrow> string" where
  "trim_end_rev (c # b # a # r) =
     (if is_ws1 c then trim_end_rev (b # a # r)
      else if is_ws2 b c then trim_end_rev (a # r)
      else if is_ws3 a b c then trim_end_rev r
      else c # b # a # r)"
| "trim_end_rev [c, b] =
     (if is_ws1 c then trim_end_rev [b] else if is_ws2 b c then [] else [c, b])"
| "trim_end_rev [c] = (if is_ws1 c then [] else [c])"
| "trim_end_rev [] = []"

definition trim :: "string \<Rightarrow> string" where
  "trim s = rev (trim_end_rev (rev (trim_start s)))"

text \<open>
  The conversion of a string to a number (\<open>StringToNumber\<close> of ECMAScript): the trimmed
  text is empty (zero), a binary, octal or hexadecimal integer, a signed decimal literal or
  \<open>Infinity\<close>; anything else is \<open>NaN\<close>.
\<close>

definition radix_val :: "nat \<Rightarrow> string \<Rightarrow> int option" where
  "radix_val base ds =
     (if ds \<noteq> [] \<and> list_all (\<lambda>d. case hex_val d of Some v \<Rightarrow> v < base | None \<Rightarrow> False) ds
      then Some (int (foldl (\<lambda>n d. base * n + (case hex_val d of Some v \<Rightarrow> v | None \<Rightarrow> 0)) 0 ds))
      else None)"

definition str_radix :: "string \<Rightarrow> int option" where
  "str_radix t =
     (case t of
        z # p # ds \<Rightarrow>
          if z \<noteq> CHR ''0'' then None
          else if p = CHR ''x'' \<or> p = CHR ''X'' then radix_val 16 ds
          else if p = CHR ''o'' \<or> p = CHR ''O'' then radix_val 8 ds
          else if p = CHR ''b'' \<or> p = CHR ''B'' then radix_val 2 ds
          else None
      | _ \<Rightarrow> None)"

definition str_sign :: "string \<Rightarrow> bool \<times> string" where
  "str_sign t =
     (case t of
        c # r \<Rightarrow>
          if c = CHR ''-'' then (True, r) else if c = CHR ''+'' then (False, r) else (False, t)
      | [] \<Rightarrow> (False, t))"

definition str_decimal :: "string \<Rightarrow> jsnum option" where
  "str_decimal t =
     (case str_sign t of (neg, u) \<Rightarrow>
        if u = ''Infinity'' then Some (if neg then NInf else PInf)
        else
          (let ip = takeWhile is_digit u;
               r1 = dropWhile is_digit u;
               hasDot = (r1 \<noteq> [] \<and> hd r1 = CHR ''.'');
               fp = (if hasDot then takeWhile is_digit (tl r1) else []);
               r2 = (if hasDot then dropWhile is_digit (tl r1) else r1)
           in if ip = [] \<and> fp = [] then None
              else (case lex_exp r2 of
                      Some (ex, []) \<Rightarrow>
                        Some (Fin (dec_rat (if neg then - int (digits_val (ip @ fp))
                                            else int (digits_val (ip @ fp)))
                                           (ex - int (length fp))))
                    | _ \<Rightarrow> None)))"

definition StringToNumber :: "string \<Rightarrow> jsnum" where
  "StringToNumber s =
     (let t = trim s
      in if t = [] then Fin 0
         else (case str_radix t of
                 Some n \<Rightarrow> Fin (of_int n)
               | None \<Rightarrow> (case str_decimal t of Some x \<Rightarrow> x | None \<Rightarrow> NaN)))"

text \<open>
  \<open>v.k\<close> for a value that came out of \<open>JSON.parse\<close> and a property name \<open>k\<close> that the program
  reads (\<open>suggestions\<close>, \<open>confidence\<close>, \<open>originalLines\<close>, \<open>suggestedLines\<close>, \<open>issues\<close>,
  \<open>metrics\<close>, \<open>length\<close>): \<open>null\<close> throws, an object answers with its own property, an array
  and a string know their \<open>length\<close>, and everything else is \<open>undefined\<close> (\<open>None\<close>). The
  length of a string counts bytes here; only its being zero or not is observed.
\<close>

fun get_prop :: "json \<Rightarrow> string \<Rightarrow> exn + json option" where
  "get_prop JNull k = Inl TypeError"
| "get_prop (JObj ms) k = Inr (map_of ms k)"
| "get_prop (JArr xs) k = Inr (if k = ''length'' then Some (JNum (int (length xs)) 0) else None)"
| "get_prop (JStr s) k = Inr (if k = ''length'' then Some (JNum (int (length s)) 0) else None)"
| "get_prop (JBool b) k = Inr None"
| "get_prop (JNum m e) k = Inr None"

text \<open>The same when the base may be \<open>undefined\<close>, which throws like \<open>null\<close>.\<close>

definition get_member :: "json option \<Rightarrow> string \<Rightarrow> exn + json option" where
  "get_member base k = (case base of None \<Rightarrow> Inl TypeError | Some v \<Rightarrow> get_prop v k)"

text \<open>
  The conversion to a number that a comparison with a number applies to its other operand.
  An object parsed from JSON converts through \<open>Object.prototype.toString\<close> to a text that is
  no number, unless it has a property \<open>toString\<close> of its own: that property is no function,
  no method is left, and the conversion throws. An array converts through the join of its
  elements, each converted to a string in the same way.
\<close>

fun to_primitive_throws :: "json \<Rightarrow> bool" where
  "to_primitive_throws (JObj ms) = (map_of ms ''toString'' \<noteq> None)"
| "to_primitive_throws (JArr xs) = list_ex to_primitive_throws xs"
| "to_primitive_throws _ = False"

fun to_num :: "json \<Rightarrow> jsnum" where
  "to_num JNull = Fin 0"
| "to_num (JBool b) = Fin (if b then 1 else 0)"
| "to_num (JNum m e) = Fin (dec_rat m e)"
| "to_num (JStr s) = StringToNumber s"
| "to_num (JObj ms) = NaN"
| "to_num (JArr []) = Fin 0"
| "to_num (JArr [JNull]) = Fin 0"
| "to_num (JArr [JBool b]) = NaN"
| "to_num (JArr [JNum m e]) = Fin (dec_rat m e)"
| "to_num (JArr [JStr s]) = StringToNumber s"
| "to_num (JArr [JObj ms]) = NaN"
| "to_num (JArr [JArr ys]) = to_num (JArr ys)"
| "to_num (JArr (x # y # zs)) = NaN"

definition to_number :: "json option \<Rightarrow> exn + jsnum" where
  "to_number x =
     (case x of
        None \<Rightarrow> Inr NaN
      | Some v \<Rightarrow> if to_primitive_throws v then Inl TypeError else Inr (to_num v))"

text \<open>\<open>x >= k\<close> and \<open>x > k\<close> for a converted operand and an integer constant.\<close>

fun num_ge :: "jsnum \<Rightarrow> int \<Rightarrow> bool" where
  "num_ge (Fin q) k = (of_int k \<le> q)"
| "num_ge NaN k = False"
| "num_ge PInf k = True"
| "num_ge NInf k = False"

fun num_gt :: "jsnum \<Rightarrow> int \<Rightarrow> bool" where
  "num_gt (Fin q) k = (of_int k < q)"
| "num_gt NaN k = False"
| "num_gt PInf k = True"
| "num_gt NInf k = False"

text \<open>Truthiness, for \<open>x || d\<close>.\<close>

definition is_truthy :: "json option \<Rightarrow> bool" where
  "is_truthy x =
     (case x of
        None \<Rightarrow> False
      | Some JNull \<Rightarrow> False
      | Some (JBool b) \<Rightarrow> b
      | Some (JNum m e) \<Rightarrow> m \<noteq> 0
      | Some (JStr s) \<Rightarrow> s \<noteq> []
      | Some (JArr xs) \<Rightarrow> True
      | Some (JObj ms) \<Rightarrow> True)"

definition or_else :: "json option \<Rightarrow> json \<Rightarrow> json" where
  "or_else x d = (case x of Some v \<Rightarrow> if is_truthy x then v else d | None \<Rightarrow> d)"

text \<open>\<open>Array.prototype.filter\<close> with a callback that may throw.\<close>

fun js_filter :: "(json \<Rightarrow> exn + bool) \<Rightarrow> json list \<Rightarrow> exn + json list" where
  "js_filter p [] = Inr []"
| "js_filter p (x # xs) =
     (case p x of
        Inl e \<Rightarrow> Inl e
      | Inr keep \<Rightarrow>
          (case js_filter p xs of
             Inl e \<Rightarrow> Inl e
           | Inr ys \<Rightarrow> Inr (if keep then x # ys else ys)))"

text \<open>\<open>obj.k = v\<close> on an object.\<close>

definition set_prop :: "json \<Rightarrow> string \<Rightarrow> json \<Rightarrow> json" where
  "set_prop obj k v = (case obj of JObj ms \<Rightarrow> JObj (AList.update k v ms) | _ \<Rightarrow> obj)"

section \<open>String and array built-ins\<close>

text \<open>
  \<open>text.replace(R, '')\<close> for the global pattern \<open>R\<close> of the edit command, whose two
  alternatives are: a fence followed by \<open>json\<close> and an optional line feed; an optional
  line feed followed by a fence. A fence is three grave accents. The scan goes from left
  to right and the first alternative that matches at a position wins.
\<close>

definition fence :: string where
  "fence = [CHR 0x60, CHR 0x60, CHR 0x60]"

definition drop_newline :: "string \<Rightarrow> string" where
  "drop_newline s = (case s of c # r \<Rightarrow> if c = CHR 0x0A then r else s | [] \<Rightarrow> [])"

lemma length_drop_newline: "length (drop_newline s) \<le> length s"
  by (simp add: drop_newline_def split: list.splits)

function strip_fences :: "string \<Rightarrow> string" where
  "strip_fences [] = []"
| "strip_fences (c # cs) =
     (if take 7 (c # cs) = fence @ ''json'' then strip_fences (drop_newline (drop 7 (c # cs)))
      else if take 4 (c # cs) = CHR 0x0A # fence then strip_fences (drop 4 (c # cs))
      else if take 3 (c # cs) = fence then strip_fences (drop 3 (c # cs))
      else c # strip_fences cs)"
  by pat_completeness auto
termination
proof (relation "measure length", goal_cases)
  case 1
  show ?case by simp
next
  case (2 c cs)
  have "length (drop_newline (drop 7 (c # cs))) \<le> length (drop 7 (c # cs))"
    by (rule length_drop_newline)
  then show ?case by simp
next
  case (3 c cs)
  show ?case by simp
next
  case (4 c cs)
  show ?case by simp
next
  case (5 c cs)
  show ?case by simp
qed

text \<open>
  \<open>response.match(R)\<close> for the pattern of the analyze command, an opening brace, any
  characters, a closing brace: the match runs from the first opening brace to the last
  closing brace after it, and there is none when no closing brace follows the first
  opening one.
\<close>

definition match_braces :: "string \<Rightarrow> string option" where
  "match_braces s =
     (let fromOpen = dropWhile (\<lambda>c. c \<noteq> CHR ''{'') s
      in if fromOpen = [] \<or> CHR ''}'' \<notin> set (tl fromOpen) then None
         else Some (CHR ''{'' # rev (dropWhile (\<lambda>c. c \<noteq> CHR ''}'') (rev (tl fromOpen)))))"

text \<open>
  \<open>Array.prototype.splice(start, deleteCount, ...items)\<close> for integer arguments, with the
  clamping of ECMAScript: a negative start counts from the end, and the delete count is
  clamped to what is left of the array. The function returns the array as mutated.
\<close>

definition splice :: "'a list \<Rightarrow> int \<Rightarrow> int \<Rightarrow> 'a list \<Rightarrow> 'a list" where
  "splice xs start deleteCount items =
     (let len = int (length xs);
          actualStart = (if start < 0 then max (len + start) 0 else min start len);
          actualDeleteCount = min (max deleteCount 0) (len - actualStart)
      in take (nat actualStart) xs @ items @ drop (nat (actualStart + actualDeleteCount)) xs)"

text \<open>
  \<open>Array.prototype.sort(compareFn)\<close>: a stable sort (ECMAScript 2019); an element \<open>x\<close> goes
  before \<open>y\<close> when \<open>compareFn x y \<le> 0\<close> and \<open>x\<close> came first in the input.
\<close>

fun insert_by :: "('a \<Rightarrow> 'a \<Rightarrow> int) \<Rightarrow> 'a \<Rightarrow> 'a list \<Rightarrow> 'a list" where
  "insert_by cmp x [] = [x]"
| "insert_by cmp x (y # ys) = (if cmp x y \<le> 0 then x # y # ys else y # insert_by cmp x ys)"

definition js_sort :: "('a \<Rightarrow> 'a \<Rightarrow> int) \<Rightarrow> 'a list \<Rightarrow> 'a list" where
  "js_sort cmp xs = foldr (insert_by cmp) xs []"

text \<open>\<open>Array.prototype.join\<close> and \<open>String.prototype.split\<close> at line feeds.\<close>

fun join_nl :: "string list \<Rightarrow> string" where
  "join_nl [] = []"
| "join_nl [l] = l"
| "join_nl (l # ls) = l @ CHR 0x0A # join_nl ls"

fun split_nl :: "string \<Rightarrow> string list" where
  "split_nl [] = [[]]"
| "split_nl (c # cs) =
     (if c = CHR 0x0A then [] # split_nl cs
      else (case split_nl cs of l # ls \<Rightarrow> (c # l) # ls | [] \<Rightarrow> [[c]]))"

text \<open>
  \<open>path.extname\<close> (POSIX): the extension of the last component of a path, from its last
  dot; empty when the component has no dot, starts with its only dot, or is \<open>..\<close>.
\<close>

definition path_extname :: "string \<Rightarrow> string" where
  "path_extname p =
     (let base = rev (takeWhile (\<lambda>c. c \<noteq> CHR ''/'') (dropWhile (\<lambda>c. c = CHR ''/'') (rev p)));
          ext = rev (takeWhile (\<lambda>c. c \<noteq> CHR ''.'') (rev base))
      in if CHR ''.'' \<notin> set base \<or> Suc (length ext) = length base \<or> base = ''..'' then []
         else CHR ''.'' # ext)"

text \<open>
  \<open>String.prototype.toLowerCase\<close> as far as it can produce an ASCII letter: from an ASCII
  capital, and from the Kelvin sign (U+212A), whose lower case is \<open>k\<close>.
\<close>

fun toLowerCase :: "string \<Rightarrow> string" where
  "toLowerCase (a # b # c # r) =
     (if code a = 0xE2 \<and> code b = 0x84 \<and> code c = 0xAA then CHR ''k'' # toLowerCase r
      else (if 0x41 \<le> code a \<and> code a \<le> 0x5A then char_of (code a + 32) else a)
             # toLowerCase (b # c # r))"
| "toLowerCase (a # r) =
     (if 0x41 \<le> code a \<and> code a \<le> 0x5A then char_of (code a + 32) else a) # toLowerCase r"
| "toLowerCase [] = []"

text \<open>The decimal digits of a natural number, for \<open>Date.now()\<close> inside a template.\<close>

definition digit_char :: "nat \<Rightarrow> char" where
  "digit_char d = ''0123456789'' ! d"

function show_nat_aux :: "nat \<Rightarrow> string \<Rightarrow> string" where
  "show_nat_aux n acc =
     (if n < 10 then digit_char n # acc
      else show_nat_aux (n div 10) (digit_char (n mod 10) # acc))"
  by pat_completeness auto
termination
  by (relation "measure fst") auto

declare show_nat_aux.simps [simp del]

definition show_nat :: "nat \<Rightarrow> string" where
  "show_nat n = show_nat_aux n []"

section \<open>The world outside the program\<close>

text \<open>
  The file system, the clock, the oracle and the human at the terminal are fields of a
  record: what each call answers. The request sent to the oracle is not modelled, since
  the oracle is opaque: its answer to the call made for the \<open>i\<close>-th file is the field
  \<open>generateContent\<close> at \<open>i\<close>, either a failure or the text of the first part of the first
  candidate, if there is one. \<open>clientReady\<close> is the outcome of obtaining (and, in the
  analyze command, initialising) the client. \<open>fs_stat\<close> answers whether a path is a regular
  file, and \<open>getCodeFiles\<close> is the outcome of the directory walk.
\<close>

record World =
  fs_access :: "string \<Rightarrow> exn + unit"
  fs_readFile :: "string \<Rightarrow> exn + string"
  fs_writeFile :: "string \<Rightarrow> string \<Rightarrow> exn + unit"
  fs_stat :: "string \<Rightarrow> exn + bool"
  getCodeFiles :: "string \<Rightarrow> exn + string list"
  date_now :: nat
  contentGeneratorConfig :: bool
  clientReady :: "nat \<Rightarrow> exn + unit"
  generateContent :: "nat \<Rightarrow> exn + string option"
  confirmProceed :: "exn + bool"
  saveSession :: "exn + unit"

text \<open>
  What a run does to the world, in order. A write is recorded when it succeeded; the other
  operations are recorded when they are called.
\<close>

datatype event =
    FsAccess string
  | FsRead string
  | FsWrite string string
  | OracleCall
  | HitlConfirm
  | SessionSave
  | ProcessExit int

text \<open>
  How a run ends. \<open>IllTyped\<close> marks a run in which the oracle's JSON does not inhabit the
  interface the source declares for it: the model does not follow such a run further.
\<close>

datatype outcome = Returned | Exited int | Threw exn | IllTyped

section \<open>The edit command\<close>

text \<open>
  The interfaces of the edit command. Line numbers and confidence are integers, as the data
  model of the specification has them: \<open>startLine\<close> and \<open>endLine\<close> are 1-based and
  inclusive, \<open>confidence\<close> is a percentage. An option that the caller left out is \<open>None\<close>.
\<close>

record EditSuggestion =
  originalLines :: "string list"
  suggestedLines :: "string list"
  startLine :: int
  endLine :: int
  reasoning :: string
  confidence :: int

record FileAnalysis =
  fa_language :: string
  fa_complexity :: int
  fa_suggestions :: "EditSuggestion list"
  fa_risks :: "string list"
  fa_dependencies :: "string list"

record EditOptions =
  dryRun :: "bool option"
  backup :: "bool option"
  autoApply :: "bool option"
  contextOption :: "string list option"

text \<open>When an untyped value inhabits an interface, and the typed value it is then.\<close>

definition as_int :: "json option \<Rightarrow> int option" where
  "as_int x =
     (case x of
        Some (JNum m e) \<Rightarrow>
          if 0 \<le> e then Some (m * 10 ^ nat e)
          else if m mod 10 ^ nat (- e) = 0 then Some (m div 10 ^ nat (- e))
          else None
      | _ \<Rightarrow> None)"

definition as_rat :: "json option \<Rightarrow> rat option" where
  "as_rat x = (case x of Some (JNum m e) \<Rightarrow> Some (dec_rat m e) | _ \<Rightarrow> None)"

definition as_string :: "json option \<Rightarrow> string option" where
  "as_string x = (case x of Some (JStr s) \<Rightarrow> Some s | _ \<Rightarrow> None)"

fun those_list :: "'a option list \<Rightarrow> 'a list option" where
  "those_list [] = Some []"
| "those_list (x # xs) =
     (case x of
        None \<Rightarrow> None
      | Some y \<Rightarrow> (case those_list xs of None \<Rightarrow> None | Some ys \<Rightarrow> Some (y # ys)))"

definition as_list :: "(json option \<Rightarrow> 'a option) \<Rightarrow> json option \<Rightarrow> 'a list option" where
  "as_list f x =
     (case x of Some (JArr xs) \<Rightarrow> those_list (map (\<lambda>v. f (Some v)) xs) | _ \<Rightarrow> None)"

definition as_EditSuggestion :: "json option \<Rightarrow> EditSuggestion option" where
  "as_EditSuggestion x =
     (case x of
        Some (JObj ms) \<Rightarrow>
          (case (as_list as_string (map_of ms ''originalLines''),
                 as_list as_string (map_of ms ''suggestedLines''),
                 as_int (map_of ms ''startLine''),
                 as_int (map_of ms ''endLine''),
                 as_string (map_of ms ''reasoning''),
                 as_int (map_of ms ''confidence'')) of
             (Some ol, Some sl, Some a, Some b, Some r, Some c) \<Rightarrow>
               Some \<lparr>originalLines = ol, suggestedLines = sl, startLine = a, endLine = b,
                     reasoning = r, confidence = c\<rparr>
           | _ \<Rightarrow> None)
      | _ \<Rightarrow> None)"

definition as_FileAnalysis :: "json \<Rightarrow> FileAnalysis option" where
  "as_FileAnalysis v =
     (case v of
        JObj ms \<Rightarrow>
          (case (as_string (map_of ms ''language''),
                 as_int (map_of ms ''complexity''),
                 as_list as_EditSuggestion (map_of ms ''suggestions''),
                 as_list as_string (map_of ms ''risks''),
                 as_list as_string (map_of ms ''dependencies'')) of
             (Some l, Some c, Some ss, Some rs, Some ds) \<Rightarrow>
               Some \<lparr>fa_language = l, fa_complexity = c, fa_suggestions = ss, fa_risks = rs,
                     fa_dependencies = ds\<rparr>
           | _ \<Rightarrow> None)
      | _ \<Rightarrow> None)"

text \<open>
  A suggestion of the declared type as the JSON object that stands for it, with the fields
  in the order of the request's sample.
\<close>

definition EditSuggestion_json :: "EditSuggestion \<Rightarrow> json" where
  "EditSuggestion_json t =
     JObj [(''originalLines'', JArr (map JStr (originalLines t))),
           (''suggestedLines'', JArr (map JStr (suggestedLines t))),
           (''startLine'', JNum (startLine t) 0),
           (''endLine'', JNum (endLine t) 0),
           (''reasoning'', JStr (reasoning t)),
           (''confidence'', JNum (confidence t) 0)]"

text \<open>\<open>getLanguageFromExtension\<close> of the edit command.\<close>

definition languageMap :: "(string \<times> string) list" where
  "languageMap =
     [(''.js'', ''javascript''), (''.jsx'', ''javascript''), (''.ts'', ''typescript''),
      (''.tsx'', ''typescript''), (''.py'', ''python''), (''.java'', ''java''),
      (''.cpp'', ''cpp''), (''.c'', ''c''), (''.go'', ''go''), (''.rs'', ''rust''),
      (''.php'', ''php''), (''.rb'', ''ruby''), (''.cs'', ''csharp''), (''.swift'', ''swift''),
      (''.kt'', ''kotlin''), (''.scala'', ''scala''), (''.sh'', ''bash''),
      (''.md'', ''markdown''), (''.html'', ''html''), (''.css'', ''css''), (''.scss'', ''scss''),
      (''.sass'', ''sass''), (''.json'', ''json''), (''.yaml'', ''yaml''), (''.yml'', ''yaml''),
      (''.xml'', ''xml'')]"

definition getLanguageFromExtension :: "string \<Rightarrow> string" where
  "getLanguageFromExtension ext =
     (case map_of languageMap (toLowerCase ext) of Some l \<Rightarrow> l | None \<Rightarrow> ''text'')"

text \<open>
  The callback of the filter in \<open>analyzeAndGenerateEdits\<close>:
  \<open>s.confidence >= 70 && s.originalLines.length > 0 && s.suggestedLines.length > 0\<close>,
  on an untyped element, with the short circuit of \<open>&&\<close>.
\<close>

definition suggestion_ok :: "json \<Rightarrow> exn + bool" where
  "suggestion_ok s =
     (case get_prop s ''confidence'' of Inl e \<Rightarrow> Inl e | Inr c \<Rightarrow>
      (case to_number c of Inl e \<Rightarrow> Inl e | Inr cn \<Rightarrow>
       if \<not> num_ge cn 70 then Inr False
       else
        (case get_prop s ''originalLines'' of Inl e \<Rightarrow> Inl e | Inr ol \<Rightarrow>
         (case get_member ol ''length'' of Inl e \<Rightarrow> Inl e | Inr oll \<Rightarrow>
          (case to_number oll of Inl e \<Rightarrow> Inl e | Inr on \<Rightarrow>
           if \<not> num_gt on 0 then Inr False
           else
            (case get_prop s ''suggestedLines'' of Inl e \<Rightarrow> Inl e | Inr sl \<Rightarrow>
             (case get_member sl ''length'' of Inl e \<Rightarrow> Inl e | Inr sll \<Rightarrow>
              (case to_number sll of Inl e \<Rightarrow> Inl e | Inr sn \<Rightarrow>
                 Inr (num_gt sn 0)))))))))"

text \<open>
  The statements of the \<open>try\<close> block of \<open>analyzeAndGenerateEdits\<close> that follow the oracle
  call: clean the text, parse it, filter \<open>analysis.suggestions\<close> in place, return the
  analysis. \<open>analysis.suggestions.filter\<close> is a function only when \<open>analysis.suggestions\<close>
  is an array.
\<close>

definition analyzeAndGenerateEdits_parse :: "string \<Rightarrow> exn + json" where
  "analyzeAndGenerateEdits_parse analysisText =
     (let cleanedResponse = trim (strip_fences analysisText)
      in case JSON_parse cleanedResponse of
           None \<Rightarrow> Inl SyntaxError
         | Some analysis \<Rightarrow>
             (case get_prop analysis ''suggestions'' of
                Inl e \<Rightarrow> Inl e
              | Inr (Some (JArr xs)) \<Rightarrow>
                  (case js_filter suggestion_ok xs of
                     Inl e \<Rightarrow> Inl e
                   | Inr ys \<Rightarrow> Inr (set_prop analysis ''suggestions'' (JArr ys)))
              | Inr _ \<Rightarrow> Inl TypeError))"

text \<open>The object that the \<open>catch\<close> block returns.\<close>

definition fallbackAnalysis :: "string \<Rightarrow> json" where
  "fallbackAnalysis lang =
     JObj [(''language'', JStr lang),
           (''complexity'', JNum 5 0),
           (''suggestions'', JArr []),
           (''risks'', JArr [JStr ''Analysis failed - manual review recommended'']),
           (''dependencies'', JArr [])]"

text \<open>The response parser of the edit command: the parsing statements under their \<open>catch\<close>.\<close>

definition analyzeAndGenerateEdits_response :: "string \<Rightarrow> string \<Rightarrow> exn + json" where
  "analyzeAndGenerateEdits_response lang analysisText =
     (case analyzeAndGenerateEdits_parse analysisText of
        Inl error \<Rightarrow> Inr (fallbackAnalysis lang)
      | Inr analysis \<Rightarrow> Inr analysis)"

text \<open>The whole \<open>try\<close> block: the client, the oracle call, the empty-answer check, the parser.\<close>

definition analyzeAndGenerateEdits_try :: "World \<Rightarrow> exn + json" where
  "analyzeAndGenerateEdits_try w =
     (case clientReady w 0 of
        Inl e \<Rightarrow> Inl e
      | Inr u \<Rightarrow>
          (case generateContent w 0 of
             Inl e \<Rightarrow> Inl e
           | Inr None \<Rightarrow> Inl (Error ''AI did not return any analysis content'')
           | Inr (Some analysisText) \<Rightarrow>
               if analysisText = [] then Inl (Error ''AI did not return any analysis content'')
               else analyzeAndGenerateEdits_parse analysisText))"

text \<open>
  \<open>analyzeAndGenerateEdits\<close>, with the events of the run: the context files are read
  (a failure there is only a warning), then the oracle is called unless the client could
  not be obtained. The guard on the configuration throws before the \<open>try\<close> block.
\<close>

definition analyzeAndGenerateEdits ::
  "World \<Rightarrow> string \<Rightarrow> string \<Rightarrow> string list option \<Rightarrow> event list \<times> (exn + json)" where
  "analyzeAndGenerateEdits w filePath content contextFiles =
     (if \<not> contentGeneratorConfig w
      then ([], Inl (Error ''Content generator configuration not found''))
      else
        (let lang = getLanguageFromExtension (path_extname filePath);
             reads = (case contextFiles of Some cs \<Rightarrow> map FsRead cs | None \<Rightarrow> []);
             call = (case clientReady w 0 of Inl e \<Rightarrow> [] | Inr u \<Rightarrow> [OracleCall])
         in (reads @ call,
             (case analyzeAndGenerateEdits_try w of
                Inl error \<Rightarrow> Inr (fallbackAnalysis lang)
              | Inr analysis \<Rightarrow> Inr analysis))))"

subsection \<open>The safe line-range applier\<close>

text \<open>The comparator handed to \<open>sort\<close>: \<open>(a, b) => b.startLine - a.startLine\<close>.\<close>

definition byStartLineDesc :: "EditSuggestion \<Rightarrow> EditSuggestion \<Rightarrow> int" where
  "byStartLineDesc a b = startLine b - startLine a"

definition sortedSuggestions :: "EditSuggestion list \<Rightarrow> EditSuggestion list" where
  "sortedSuggestions suggs = js_sort byStartLineDesc suggs"

text \<open>The body of the loop of \<open>applyEdits\<close>: one suggestion against the current lines.\<close>

definition applyEdits_step :: "string list \<Rightarrow> EditSuggestion \<Rightarrow> string list" where
  "applyEdits_step modifiedLines suggestion =
     (let startIdx = startLine suggestion - 1;
          endIdx = endLine suggestion - 1
      in if startIdx \<ge> 0 \<and> endIdx < int (length modifiedLines) \<and> startIdx \<le> endIdx
         then splice modifiedLines startIdx (endIdx - startIdx + 1) (suggestedLines suggestion)
         else modifiedLines)"

definition applyEdits_lines :: "string list \<Rightarrow> EditSuggestion list \<Rightarrow> string list" where
  "applyEdits_lines lines suggs = foldl applyEdits_step lines (sortedSuggestions suggs)"

definition applyEdits :: "string list \<Rightarrow> EditSuggestion list \<Rightarrow> string" where
  "applyEdits lines suggs = join_nl (applyEdits_lines lines suggs)"

subsection \<open>The command\<close>

definition backupPath :: "World \<Rightarrow> string \<Rightarrow> string" where
  "backupPath w filePath = filePath @ ''.backup.'' @ show_nat (date_now w)"

text \<open>
  \<open>handleEditCommand\<close> from the call of \<open>analyzeAndGenerateEdits\<close> on; \<open>tr\<close> holds the events
  so far. Printing is not modelled.
\<close>

definition handleEditCommand_rest ::
  "World \<Rightarrow> string \<Rightarrow> string \<Rightarrow> EditOptions \<Rightarrow> event list \<Rightarrow> event list \<times> outcome" where
  "handleEditCommand_rest w filePath currentContent options tr =
     (case analyzeAndGenerateEdits w filePath currentContent (contextOption options) of
        (ev, Inl e) \<Rightarrow> (tr @ ev, Threw e)
      | (ev, Inr analysis) \<Rightarrow>
          (case as_FileAnalysis analysis of
             None \<Rightarrow> (tr @ ev, IllTyped)
           | Some a \<Rightarrow>
               if length (fa_suggestions a) = 0 then (tr @ ev, Returned)
               else if dryRun options = Some True then (tr @ ev, Returned)
               else if autoApply options = Some True then
                 (case fs_writeFile w filePath
                         (applyEdits (split_nl currentContent) (fa_suggestions a)) of
                    Inl e \<Rightarrow> (tr @ ev, Threw e)
                  | Inr u \<Rightarrow>
                      (let wrote = FsWrite filePath
                             (applyEdits (split_nl currentContent) (fa_suggestions a))
                       in case saveSession w of
                            Inl e \<Rightarrow> (tr @ ev @ [wrote, SessionSave], Threw e)
                          | Inr u' \<Rightarrow> (tr @ ev @ [wrote, SessionSave], Returned)))
               else
                 (case confirmProceed w of
                    Inl e \<Rightarrow> (tr @ ev @ [HitlConfirm], Threw e)
                  | Inr shouldApply \<Rightarrow>
                      if shouldApply then
                        (case fs_writeFile w filePath
                                (applyEdits (split_nl currentContent) (fa_suggestions a)) of
                           Inl e \<Rightarrow> (tr @ ev @ [HitlConfirm], Threw e)
                         | Inr u \<Rightarrow>
                             (let wrote = FsWrite filePath
                                    (applyEdits (split_nl currentContent) (fa_suggestions a))
                              in case saveSession w of
                                   Inl e \<Rightarrow> (tr @ ev @ [HitlConfirm, wrote, SessionSave], Threw e)
                                 | Inr u' \<Rightarrow>
                                     (tr @ ev @ [HitlConfirm, wrote, SessionSave], Returned)))
                      else (tr @ ev @ [HitlConfirm], Returned))))"

definition handleEditCommand ::
  "World \<Rightarrow> string \<Rightarrow> string \<Rightarrow> EditOptions \<Rightarrow> event list \<times> outcome" where
  "handleEditCommand w filePath prompt options =
     (case fs_access w filePath of
        Inl e \<Rightarrow> ([FsAccess filePath, ProcessExit 1], Exited 1)
      | Inr u \<Rightarrow>
          (case fs_readFile w filePath of
             Inl e \<Rightarrow> ([FsAccess filePath, FsRead filePath], Threw e)
           | Inr currentContent \<Rightarrow>
               if backup options \<noteq> Some False then
                 (case fs_writeFile w (backupPath w filePath) currentContent of
                    Inl e \<Rightarrow> ([FsAccess filePath, FsRead filePath], Threw e)
                  | Inr u' \<Rightarrow>
                      handleEditCommand_rest w filePath currentContent options
                        [FsAccess filePath, FsRead filePath,
                         FsWrite (backupPath w filePath) currentContent])
               else
                 handleEditCommand_rest w filePath currentContent options
                   [FsAccess filePath, FsRead filePath]))"

section \<open>The analyze command\<close>

text \<open>
  What \<open>parseAnalysisResponse\<close> builds: an object with the four fields of \<open>AnalysisResult\<close>,
  whose contents are whatever the oracle's JSON held.
\<close>

record RawAnalysisResult =
  raw_file :: string
  raw_issues :: json
  raw_suggestions :: json
  raw_metrics :: json

definition defaultMetrics :: json where
  "defaultMetrics =
     JObj [(''complexity'', JNum 5 0), (''maintainabilityIndex'', JNum 70 0),
           (''performance'', JStr ''good''), (''security'', JStr ''moderate'')]"

text \<open>The \<open>try\<close> block of \<open>parseAnalysisResponse\<close>.\<close>

definition parseAnalysisResponse_try :: "string \<Rightarrow> string \<Rightarrow> exn + RawAnalysisResult" where
  "parseAnalysisResponse_try response filePath =
     (let jsonText = (case match_braces response of Some m \<Rightarrow> m | None \<Rightarrow> response)
      in case JSON_parse jsonText of
           None \<Rightarrow> Inl SyntaxError
         | Some parsed \<Rightarrow>
             (case get_prop parsed ''issues'' of Inl e \<Rightarrow> Inl e | Inr i \<Rightarrow>
              (case get_prop parsed ''suggestions'' of Inl e \<Rightarrow> Inl e | Inr s \<Rightarrow>
               (case get_prop parsed ''metrics'' of Inl e \<Rightarrow> Inl e | Inr m \<Rightarrow>
                  Inr \<lparr>raw_file = filePath,
                       raw_issues = or_else i (JArr []),
                       raw_suggestions = or_else s (JArr []),
                       raw_metrics = or_else m defaultMetrics\<rparr>))))"

text \<open>The result of its \<open>catch\<close> block.\<close>

definition fallbackResult :: "string \<Rightarrow> RawAnalysisResult" where
  "fallbackResult filePath =
     \<lparr>raw_file = filePath,
      raw_issues = JArr [],
      raw_suggestions =
        JArr [JObj [(''line'', JNum 1 0), (''type'', JStr ''documentation''),
                    (''description'',
                     JStr ''Consider adding comprehensive documentation for this code'')]],
      raw_metrics = defaultMetrics\<rparr>"

definition parseAnalysisResponse :: "string \<Rightarrow> string \<Rightarrow> exn + RawAnalysisResult" where
  "parseAnalysisResponse response filePath =
     (case parseAnalysisResponse_try response filePath of
        Inl error \<Rightarrow> Inr (fallbackResult filePath)
      | Inr result \<Rightarrow> Inr result)"

text \<open>
  \<open>analyzeFile\<close> for the \<open>i\<close>-th file of a batch. The file is read and the configuration is
  checked before the \<open>try\<close> block; the block holds the client, the oracle call, the
  empty-answer check and the parser; the \<open>catch\<close> block returns the placeholder. The flag
  for a full analysis only changes the request.
\<close>

definition analyzeFile_try :: "World \<Rightarrow> nat \<Rightarrow> string \<Rightarrow> exn + RawAnalysisResult" where
  "analyzeFile_try w i filePath =
     (case clientReady w i of
        Inl e \<Rightarrow> Inl e
      | Inr u \<Rightarrow>
          (case generateContent w i of
             Inl e \<Rightarrow> Inl e
           | Inr None \<Rightarrow> Inl (Error ''AI did not return any analysis content'')
           | Inr (Some analysisText) \<Rightarrow>
               if analysisText = [] then Inl (Error ''AI did not return any analysis content'')
               else parseAnalysisResponse analysisText filePath))"

definition neutralResult :: "string \<Rightarrow> RawAnalysisResult" where
  "neutralResult filePath =
     \<lparr>raw_file = filePath,
      raw_issues = JArr [],
      raw_suggestions = JArr [],
      raw_metrics =
        JObj [(''complexity'', JNum 0 0), (''maintainabilityIndex'', JNum 50 0),
              (''performance'', JStr ''fair''), (''security'', JStr ''moderate'')]\<rparr>"

definition analyzeFile :: "World \<Rightarrow> nat \<Rightarrow> string \<Rightarrow> bool \<Rightarrow> exn + RawAnalysisResult" where
  "analyzeFile w i filePath fullAnalysis =
     (case fs_readFile w filePath of
        Inl e \<Rightarrow> Inl e
      | Inr content \<Rightarrow>
          if \<not> contentGeneratorConfig w
          then Inl (Error ''Content generator configuration not found'')
          else (case analyzeFile_try w i filePath of
                  Inl error \<Rightarrow> Inr (neutralResult filePath)
                | Inr analysisResult \<Rightarrow> Inr analysisResult))"

text \<open>The loop of \<open>analyzeCodebase\<close> over the files, from the \<open>i\<close>-th on.\<close>

fun analyzeFiles :: "World \<Rightarrow> nat \<Rightarrow> string list \<Rightarrow> bool \<Rightarrow> exn + RawAnalysisResult list" where
  "analyzeFiles w i [] fullAnalysis = Inr []"
| "analyzeFiles w i (filePath # rest) fullAnalysis =
     (case analyzeFile w i filePath fullAnalysis of
        Inl e \<Rightarrow> Inl e
      | Inr result \<Rightarrow>
          (case analyzeFiles w (Suc i) rest fullAnalysis of
             Inl e \<Rightarrow> Inl e
           | Inr results \<Rightarrow> Inr (result # results)))"

definition analyzeCodebase :: "World \<Rightarrow> string \<Rightarrow> bool \<Rightarrow> exn + RawAnalysisResult list" where
  "analyzeCodebase w target fullAnalysis =
     (case fs_stat w target of
        Inl e \<Rightarrow> Inl e
      | Inr isFile \<Rightarrow>
          if isFile then analyzeFiles w 0 [target] fullAnalysis
          else (case getCodeFiles w target of
                  Inl e \<Rightarrow> Inl e
                | Inr allFiles \<Rightarrow> analyzeFiles w 0 allFiles fullAnalysis))"

subsection \<open>The declared interfaces\<close>

datatype severity = SevError | SevWarning | SevInfo

datatype issue_kind = Security | Performance | Maintainability | Style | Bug

datatype suggestion_kind = Optimization | Refactor | Documentation | Test

datatype performance_grade = Excellent | Good | Fair | Poor

datatype security_grade = Secure | Moderate | Vulnerable

record CodeIssue =
  issue_line :: int
  issue_column :: int
  issue_severity :: severity
  issue_message :: string
  issue_type :: issue_kind

record CodeSuggestion =
  suggestion_line :: int
  suggestion_type :: suggestion_kind
  suggestion_description :: string
  suggestedCode :: "string option"

record CodeMetrics =
  complexity :: rat
  maintainabilityIndex :: rat
  testCoverage :: "rat option"
  performance :: performance_grade
  security :: security_grade

record AnalysisResult =
  result_file :: string
  issues :: "CodeIssue list"
  suggestions :: "CodeSuggestion list"
  metrics :: CodeMetrics

definition as_enum :: "(string \<times> 'a) list \<Rightarrow> json option \<Rightarrow> 'a option" where
  "as_enum names x = (case x of Some (JStr s) \<Rightarrow> map_of names s | _ \<Rightarrow> None)"

text \<open>An optional field: absent, or present with a value of its type.\<close>

definition as_optional :: "(json option \<Rightarrow> 'a option) \<Rightarrow> json option \<Rightarrow> 'a option option" where
  "as_optional f x = (case x of None \<Rightarrow> Some None | Some v \<Rightarrow> map_option Some (f x))"

definition as_CodeIssue :: "json option \<Rightarrow> CodeIssue option" where
  "as_CodeIssue x =
     (case x of
        Some (JObj ms) \<Rightarrow>
          (case (as_int (map_of ms ''line''),
                 as_int (map_of ms ''column''),
                 as_enum [(''error'', SevError), (''warning'', SevWarning), (''info'', SevInfo)]
                   (map_of ms ''severity''),
                 as_string (map_of ms ''message''),
                 as_enum [(''security'', Security), (''performance'', Performance),
                          (''maintainability'', Maintainability), (''style'', Style),
                          (''bug'', Bug)]
                   (map_of ms ''type'')) of
             (Some l, Some c, Some sv, Some m, Some t) \<Rightarrow>
               Some \<lparr>issue_line = l, issue_column = c, issue_severity = sv, issue_message = m,
                     issue_type = t\<rparr>
           | _ \<Rightarrow> None)
      | _ \<Rightarrow> None)"

definition as_CodeSuggestion :: "json option \<Rightarrow> CodeSuggestion option" where
  "as_CodeSuggestion x =
     (case x of
        Some (JObj ms) \<Rightarrow>
          (case (as_int (map_of ms ''line''),
                 as_enum [(''optimization'', Optimization), (''refactor'', Refactor),
                          (''documentation'', Documentation), (''test'', Test)]
                   (map_of ms ''type''),
                 as_string (map_of ms ''description''),
                 as_optional as_string (map_of ms ''suggestedCode'')) of
             (Some l, Some t, Some d, Some sc) \<Rightarrow>
               Some \<lparr>suggestion_line = l, suggestion_type = t, suggestion_description = d,
                     suggestedCode = sc\<rparr>
           | _ \<Rightarrow> None)
      | _ \<Rightarrow> None)"

definition as_CodeMetrics :: "json option \<Rightarrow> CodeMetrics option" where
  "as_CodeMetrics x =
     (case x of
        Some (JObj ms) \<Rightarrow>
          (case (as_rat (map_of ms ''complexity''),
                 as_rat (map_of ms ''maintainabilityIndex''),
                 as_optional as_rat (map_of ms ''testCoverage''),
                 as_enum [(''excellent'', Excellent), (''good'', Good), (''fair'', Fair),
                          (''poor'', Poor)]
                   (map_of ms ''performance''),
                 as_enum [(''secure'', Secure), (''moderate'', Moderate),
                          (''vulnerable'', Vulnerable)]
                   (map_of ms ''security'')) of
             (Some c, Some m, Some tc, Some p, Some s) \<Rightarrow>
               Some \<lparr>complexity = c, maintainabilityIndex = m, testCoverage = tc,
                     performance = p, security = s\<rparr>
           | _ \<Rightarrow> None)
      | _ \<Rightarrow> None)"

definition as_AnalysisResult :: "RawAnalysisResult \<Rightarrow> AnalysisResult option" where
  "as_AnalysisResult r =
     (case (as_list as_CodeIssue (Some (raw_issues r)),
            as_list as_CodeSuggestion (Some (raw_suggestions r)),
            as_CodeMetrics (Some (raw_metrics r))) of
        (Some i, Some s, Some m) \<Rightarrow>
          Some \<lparr>result_file = raw_file r, issues = i, suggestions = s, metrics = m\<rparr>
      | _ \<Rightarrow> None)"

subsection \<open>The summary\<close>

text \<open>
  The division of two numbers, for a sum and a count: a zero count gives \<open>NaN\<close> for a zero
  sum and an infinity otherwise, and no exception.
\<close>

definition js_div :: "rat \<Rightarrow> nat \<Rightarrow> jsnum" where
  "js_div x n =
     (if n = 0 then (if x = 0 then NaN else if 0 < x then PInf else NInf)
      else Fin (x / of_nat n))"

text \<open>
  The numbers that \<open>displayResults\<close> computes for its summary, before they are printed
  (the averages are printed with one decimal).
\<close>

record Summary =
  filesAnalyzed :: nat
  totalIssues :: nat
  totalSuggestions :: nat
  avgComplexity :: jsnum
  avgMaintainability :: jsnum

definition displayResults :: "AnalysisResult list \<Rightarrow> Summary" where
  "displayResults results =
     \<lparr>filesAnalyzed = length results,
      totalIssues =
        foldl (\<lambda>total r. if length (issues r) > 0 then total + length (issues r) else total)
          0 results,
      totalSuggestions =
        foldl (\<lambda>total r.
                 if length (suggestions r) > 0 then total + length (suggestions r) else total)
          0 results,
      avgComplexity =
        js_div (foldl (\<lambda>sum r. sum + complexity (metrics r)) 0 results) (length results),
      avgMaintainability =
        js_div (foldl (\<lambda>sum r. sum + maintainabilityIndex (metrics r)) 0 results)
          (length results)\<rparr>"

section \<open>The specification's wording\<close>

text \<open>
  The definitions of this section follow the words of the specification, not the source;
  the theorems compare them with the definitions above.
\<close>

text \<open>
  One replacement: the inclusive range \<open>[a, b]\<close> of the current lines is cut out and the new
  lines are put in its place.
\<close>

definition replace_range :: "'a list \<Rightarrow> nat \<Rightarrow> nat \<Rightarrow> 'a list \<Rightarrow> 'a list" where
  "replace_range cur a b new = take a cur @ new @ drop (Suc b) cur"

text \<open>The validator: confidence at least 70 and both line arrays non-empty.\<close>

definition keeps :: "EditSuggestion \<Rightarrow> bool" where
  "keeps s = (70 \<le> confidence s \<and> originalLines s \<noteq> [] \<and> suggestedLines s \<noteq> [])"

text \<open>Suggestions that are valid for a file, and whose line ranges do not overlap.\<close>

definition valid_for :: "string list \<Rightarrow> EditSuggestion list \<Rightarrow> bool" where
  "valid_for lines suggs =
     list_all (\<lambda>s. 1 \<le> startLine s \<and> startLine s \<le> endLine s \<and> endLine s \<le> int (length lines))
       suggs"

definition non_overlapping :: "EditSuggestion list \<Rightarrow> bool" where
  "non_overlapping suggs =
     (\<forall>i < length suggs. \<forall>j < length suggs. i \<noteq> j \<longrightarrow>
        endLine (suggs ! i) < startLine (suggs ! j) \<or>
        endLine (suggs ! j) < startLine (suggs ! i))"






text \<open>
  The mean over the successfully analyzed files only: each result comes with a flag that
  says whether the analysis of its file succeeded.
\<close>

definition mean_of_successful ::
  "(AnalysisResult \<Rightarrow> rat) \<Rightarrow> (bool \<times> AnalysisResult) list \<Rightarrow> jsnum" where
  "mean_of_successful f tagged =
     js_div (sum_list (map (\<lambda>p. f (snd p)) (filter fst tagged))) (length (filter fst tagged))"

text \<open>Whether the analysis of the \<open>i\<close>-th file succeeded: its \<open>try\<close> block did not throw.\<close>

definition analysis_succeeded :: "World \<Rightarrow> nat \<Rightarrow> string \<Rightarrow> bool" where
  "analysis_succeeded w i filePath =
     (case analyzeFile_try w i filePath of Inl e \<Rightarrow> False | Inr r \<Rightarrow> True)"

text \<open>
  In a run, no event that satisfies \<open>P\<close> happens before the event \<open>g\<close> has happened.
\<close>

fun not_before :: "event \<Rightarrow> (event \<Rightarrow> bool) \<Rightarrow> event list \<Rightarrow> bool" where
  "not_before g P [] = True"
| "not_before g P (e # es) = (if e = g then True else (\<not> P e \<and> not_before g P es))"

text \<open>The events that need the backup: consulting the oracle, asking, overwriting the file.\<close>

definition needs_backup :: "string \<Rightarrow> event \<Rightarrow> bool" where
  "needs_backup filePath e =
     (case e of
        OracleCall \<Rightarrow> True
      | HitlConfirm \<Rightarrow> True
      | FsWrite p c \<Rightarrow> p = filePath
      | _ \<Rightarrow> False)"

text \<open>
  For one file of a batch: its content can be read; and the oracle failed for it, which is
  one of: the client could not be obtained or initialised, the generation call failed, the
  answer holds no text, the text is empty. Both are stated on the world alone.
\<close>

definition readable :: "World \<Rightarrow> string \<Rightarrow> bool" where
  "readable w filePath = (case fs_readFile w filePath of Inl e \<Rightarrow> False | Inr c \<Rightarrow> True)"

definition oracle_failed :: "World \<Rightarrow> nat \<Rightarrow> bool" where
  "oracle_failed w i =
     (case clientReady w i of
        Inl e \<Rightarrow> True
      | Inr u \<Rightarrow>
          (case generateContent w i of
             Inl e \<Rightarrow> True
           | Inr None \<Rightarrow> True
           | Inr (Some answer) \<Rightarrow> answer = []))"

section \<open>Example inputs\<close>

text \<open>
  Concrete worlds and oracle answers, on which the theorems below are evaluated. In
  \<open>quiet_world\<close> every call succeeds, the oracle answers with no text, and the human
  accepts.
\<close>

definition quiet_world :: World where
  "quiet_world =
     \<lparr>fs_access = (\<lambda>p. Inr ()),
      fs_readFile = (\<lambda>p. Inr ''let x = 1''),
      fs_writeFile = (\<lambda>p c. Inr ()),
      fs_stat = (\<lambda>p. Inr False),
      getCodeFiles = (\<lambda>p. Inr []),
      date_now = 1700000000000,
      contentGeneratorConfig = True,
      clientReady = (\<lambda>i. Inr ()),
      generateContent = (\<lambda>i. Inr None),
      confirmProceed = Inr True,
      saveSession = Inr ()\<rparr>"

text \<open>An answer of the oracle to the analyze command, with metrics only.\<close>

definition metrics_answer :: string where
  \<open>metrics_answer =
     ''{"metrics":{"complexity":4,"maintainabilityIndex":80,"performance":"good","security":"secure"}}''\<close>

text \<open>The oracle answers for the first file and fails for every later one.\<close>

definition one_failure_world :: World where
  "one_failure_world =
     quiet_world\<lparr>generateContent :=
       (\<lambda>i. if i = 0 then Inr (Some metrics_answer) else Inl (Error ''quota exceeded''))\<rparr>"

text \<open>The first file of the batch cannot be read.\<close>

definition unreadable_world :: World where
  "unreadable_world =
     quiet_world\<lparr>fs_readFile :=
       (\<lambda>p. if p = ''a.ts'' then Inl (IOError ''EACCES'') else Inr ''let x = 1'')\<rparr>"

text \<open>An answer of the oracle to the edit command, with one suggestion, inside a fence.\<close>

definition edit_answer :: string where
  \<open>edit_answer =
     fence @ ''json'' @ [CHR 0x0A] @
     ''{"language":"typescript","complexity":2,"suggestions":[{"originalLines":["let x = 1"],'' @
     ''"suggestedLines":["const x = 1"],"startLine":1,"endLine":1,'' @
     ''"reasoning":"never reassigned","confidence":90}],"risks":[],"dependencies":[]}'' @
     [CHR 0x0A] @ fence\<close>

definition edit_world :: World where
  "edit_world = quiet_world\<lparr>generateContent := (\<lambda>i. Inr (Some edit_answer))\<rparr>"


definition bare_answer :: string where
  \<open>bare_answer = ''{"suggestions":[]}''\<close>

definition odd_metrics_answer :: string where
  \<open>odd_metrics_answer = ''{"metrics":5}''\<close>

section \<open>Properties of the built-ins\<close>

lemma split_nl_not_Nil: "split_nl s \<noteq> []"
  by (induction s) (auto split: list.splits)

lemma join_split_nl: "join_nl (split_nl s) = s"
proof (induction s)
  case Nil
  show ?case by simp
next
  case (Cons c cs)
  obtain l ls where sp: "split_nl cs = l # ls"
    using split_nl_not_Nil [of cs] by (cases "split_nl cs") auto
  show ?case
  proof (cases "c = CHR 0x0A")
    case True
    with Cons sp show ?thesis by simp
  next
    case False
    with Cons sp show ?thesis by (cases ls) auto
  qed
qed

lemma splice_in_bounds:
  assumes "0 \<le> a" and "a \<le> b" and "b < int (length xs)"
  shows "splice xs a (b - a + 1) items = replace_range xs (nat a) (nat b) items"
proof -
  define len where "len = int (length xs)"
  have start: "(if a < 0 then max (len + a) 0 else min a len) = a"
    using assms by (simp add: len_def)
  have count: "min (max (b - a + 1) 0) (len - a) = b - a + 1"
    using assms by (simp add: len_def)
  have stop: "nat (a + (b - a + 1)) = Suc (nat b)"
    using assms by simp
  have "splice xs a (b - a + 1) items =
          take (nat a) xs @ items @ drop (nat (a + (b - a + 1))) xs"
    unfolding splice_def Let_def len_def [symmetric] start count ..
  then show ?thesis
    by (simp only: stop replace_range_def)
qed

lemma insert_by_eq_insort:
  "insert_by byStartLineDesc x ys = insort_key (\<lambda>s. - startLine s) x ys"
  by (induction ys) (simp_all add: byStartLineDesc_def)

lemma js_sort_eq_sort_key:
  "js_sort byStartLineDesc xs = sort_key (\<lambda>s. - startLine s) xs"
  by (induction xs) (simp_all add: js_sort_def sort_key_def insert_by_eq_insort)

lemma sortedSuggestions_mset: "mset (sortedSuggestions S) = mset S"
  by (simp add: sortedSuggestions_def js_sort_eq_sort_key)

lemma sortedSuggestions_desc:
  "sorted_wrt (\<lambda>a b. startLine a \<ge> startLine b) (sortedSuggestions S)"
proof -
  have "sorted (map (\<lambda>s. - startLine s) (sortedSuggestions S))"
    by (simp add: sortedSuggestions_def js_sort_eq_sort_key)
  then show ?thesis
    by (simp add: sorted_wrt_map)
qed

lemma sortedSuggestions_stable:
  "filter (\<lambda>s. startLine s = k) (sortedSuggestions S) = filter (\<lambda>s. startLine s = k) S"
proof -
  have "filter (\<lambda>s. - startLine s = - k) (sort_key (\<lambda>s. - startLine s) S)
        = filter (\<lambda>s. - startLine s = - k) S"
    by (rule sort_key_stable)
  then show ?thesis by (simp add: sortedSuggestions_def js_sort_eq_sort_key)
qed

lemma applyEdits_step_eq:
  "applyEdits_step cur s =
     (if 0 \<le> startLine s - 1 \<and> startLine s - 1 \<le> endLine s - 1 \<and> endLine s - 1 < int (length cur)
      then replace_range cur (nat (startLine s - 1)) (nat (endLine s - 1)) (suggestedLines s)
      else cur)"
  using splice_in_bounds [of "startLine s - 1" "endLine s - 1" cur "suggestedLines s"]
  by (simp add: applyEdits_step_def Let_def)

lemma non_overlapping_inj_startLine:
  assumes "valid_for lines S" and "non_overlapping S"
  shows "inj_on (\<lambda>s. - startLine s) (set S)"
proof (rule inj_onI)
  fix s t
  assume st: "s \<in> set S" "t \<in> set S" and eq: "- startLine s = - startLine t"
  from st obtain i j where ij: "i < length S" "S ! i = s" "j < length S" "S ! j = t"
    by (auto simp: in_set_conv_nth)
  from assms(1) st have le: "startLine s \<le> endLine s" "startLine t \<le> endLine t"
    by (auto simp: valid_for_def list_all_iff)
  show "s = t"
  proof (rule ccontr)
    assume "s \<noteq> t"
    with ij have "i \<noteq> j" by auto
    with assms(2) ij have "endLine s < startLine t \<or> endLine t < startLine s"
      unfolding non_overlapping_def by blast
    with le eq show False by auto
  qed
qed

lemma sortedSuggestions_permutation:
  assumes "valid_for lines S" and "non_overlapping S" and "mset S' = mset S"
  shows "sortedSuggestions S' = sortedSuggestions S"
proof -
  have "set S' = set S" using assms(3) by (rule mset_eq_setD)
  with non_overlapping_inj_startLine [OF assms(1,2)]
  have inj: "inj_on (\<lambda>s. - startLine s) (set S')" by simp
  have "sort_key (\<lambda>s. - startLine s) S' = sort_key (\<lambda>s. - startLine s) S"
    by (rule sort_key_inj_key_eq) (simp_all add: assms(3) inj)
  then show ?thesis by (simp add: sortedSuggestions_def js_sort_eq_sort_key)
qed

section \<open>Properties of the applier\<close>

text \<open>
  C7. Applying the empty suggestion list is the identity: the lines come back unchanged,
  and for a file content split at line feeds the joined result is the content itself.
\<close>

theorem applyEdits_empty_identity:
  "applyEdits_lines lines [] = lines \<and> applyEdits (split_nl content) [] = content"
  by (simp add: applyEdits_def applyEdits_lines_def sortedSuggestions_def js_sort_def
      join_split_nl)

theorem applyEdits_empty_identity_witness:
  "applyEdits (split_nl (''a'' @ [CHR 0x0A] @ ''b'' @ [CHR 0x0A])) []
     = ''a'' @ [CHR 0x0A] @ ''b'' @ [CHR 0x0A]
   \<and> split_nl (''a'' @ [CHR 0x0A] @ ''b'' @ [CHR 0x0A]) = [''a'', ''b'', '''']"
  using applyEdits_empty_identity [of "[]" "''a'' @ [CHR 0x0A] @ ''b'' @ [CHR 0x0A]"]
  by simp

text \<open>
  C2. The applier goes through the suggestions in descending order of \<open>startLine\<close> (a stable
  rearrangement of the input); each step replaces the inclusive range of the current lines
  exactly when \<open>0 \<le> startIdx \<le> endIdx < length\<close> holds for the current length, and leaves
  the current lines untouched otherwise.
\<close>

theorem applyEdits_descending_bounds_checked:
  "applyEdits lines suggs = join_nl (foldl applyEdits_step lines (sortedSuggestions suggs))
   \<and> mset (sortedSuggestions suggs) = mset suggs
   \<and> sorted_wrt (\<lambda>a b. startLine a \<ge> startLine b) (sortedSuggestions suggs)
   \<and> filter (\<lambda>s. startLine s = k) (sortedSuggestions suggs) = filter (\<lambda>s. startLine s = k) suggs
   \<and> applyEdits_step cur s =
       (if 0 \<le> startLine s - 1 \<and> startLine s - 1 \<le> endLine s - 1
           \<and> endLine s - 1 < int (length cur)
        then replace_range cur (nat (startLine s - 1)) (nat (endLine s - 1)) (suggestedLines s)
        else cur)"
proof -
  have "applyEdits lines suggs = join_nl (foldl applyEdits_step lines (sortedSuggestions suggs))"
    by (simp add: applyEdits_def applyEdits_lines_def)
  with sortedSuggestions_mset [of suggs] sortedSuggestions_desc [of suggs]
    sortedSuggestions_stable [of k suggs] applyEdits_step_eq [of cur s]
  show ?thesis by blast
qed

theorem applyEdits_descending_bounds_checked_witness:
  "applyEdits [''a'', ''b'', ''c'', ''d'']
     [\<lparr>originalLines = [''a''], suggestedLines = [''x'', ''y'', ''z''], startLine = 1,
       endLine = 1, reasoning = ''first'', confidence = 90\<rparr>,
      \<lparr>originalLines = [''c'', ''d'', ''e''], suggestedLines = [''q''], startLine = 3,
       endLine = 5, reasoning = ''second'', confidence = 90\<rparr>]
     = ''x'' @ [CHR 0x0A] @ ''y'' @ [CHR 0x0A] @ ''z'' @ [CHR 0x0A] @ ''b'' @ [CHR 0x0A]
         @ ''c'' @ [CHR 0x0A] @ ''d''
   \<and> applyEdits_step [''a'', ''b'', ''c'', ''d'']
       \<lparr>originalLines = [''b'', ''c''], suggestedLines = [''X''], startLine = 2,
        endLine = 3, reasoning = ''merge'', confidence = 90\<rparr>
     = [''a'', ''X'', ''d'']
   \<and> applyEdits_step [''a'', ''b'', ''c'', ''d'']
       \<lparr>originalLines = [''c'', ''d'', ''e''], suggestedLines = [''q''], startLine = 3,
        endLine = 5, reasoning = ''second'', confidence = 90\<rparr>
     = [''a'', ''b'', ''c'', ''d'']"
proof -
  have 1: "sortedSuggestions
     [\<lparr>originalLines = [''a''], suggestedLines = [''x'', ''y'', ''z''], startLine = 1,
       endLine = 1, reasoning = ''first'', confidence = 90\<rparr>,
      \<lparr>originalLines = [''c'', ''d'', ''e''], suggestedLines = [''q''], startLine = 3,
       endLine = 5, reasoning = ''second'', confidence = 90\<rparr>]
    = [\<lparr>originalLines = [''c'', ''d'', ''e''], suggestedLines = [''q''], startLine = 3,
       endLine = 5, reasoning = ''second'', confidence = 90\<rparr>,
       \<lparr>originalLines = [''a''], suggestedLines = [''x'', ''y'', ''z''], startLine = 1,
       endLine = 1, reasoning = ''first'', confidence = 90\<rparr>]"
    by (simp add: sortedSuggestions_def js_sort_def byStartLineDesc_def)
  show ?thesis
    using
      applyEdits_descending_bounds_checked [of "[''a'', ''b'', ''c'', ''d'']"
        "[\<lparr>originalLines = [''a''], suggestedLines = [''x'', ''y'', ''z''], startLine = 1,
           endLine = 1, reasoning = ''first'', confidence = 90\<rparr>,
          \<lparr>originalLines = [''c'', ''d'', ''e''], suggestedLines = [''q''], startLine = 3,
           endLine = 5, reasoning = ''second'', confidence = 90\<rparr>]"
        1 "[''a'', ''b'', ''c'', ''d'']"
        "\<lparr>originalLines = [''b'', ''c''], suggestedLines = [''X''], startLine = 2,
          endLine = 3, reasoning = ''merge'', confidence = 90\<rparr>"]
    by (simp add: 1 applyEdits_step_def splice_def replace_range_def)
qed

text \<open>
  C8. For suggestions that are valid for the file and whose line ranges do not overlap,
  the result does not depend on the order in which the suggestions are given: any
  rearrangement of the list yields the same content.
\<close>

theorem applyEdits_permutation_invariant:
  assumes "valid_for lines suggs" and "non_overlapping suggs" and "mset suggs' = mset suggs"
  shows "applyEdits lines suggs' = applyEdits lines suggs"
  using sortedSuggestions_permutation [OF assms]
  by (simp add: applyEdits_def applyEdits_lines_def)

theorem applyEdits_permutation_invariant_witness:
  "valid_for [''a'', ''b'', ''c'', ''d'', ''e'']
     [\<lparr>originalLines = [''b''], suggestedLines = [''B2''], startLine = 2, endLine = 2,
       reasoning = ''r1'', confidence = 90\<rparr>,
      \<lparr>originalLines = [''d''], suggestedLines = [''D2''], startLine = 4, endLine = 4,
       reasoning = ''r2'', confidence = 90\<rparr>]
   \<and> non_overlapping
     [\<lparr>originalLines = [''b''], suggestedLines = [''B2''], startLine = 2, endLine = 2,
       reasoning = ''r1'', confidence = 90\<rparr>,
      \<lparr>originalLines = [''d''], suggestedLines = [''D2''], startLine = 4, endLine = 4,
       reasoning = ''r2'', confidence = 90\<rparr>]
   \<and> applyEdits [''a'', ''b'', ''c'', ''d'', ''e'']
     [\<lparr>originalLines = [''d''], suggestedLines = [''D2''], startLine = 4, endLine = 4,
       reasoning = ''r2'', confidence = 90\<rparr>,
      \<lparr>originalLines = [''b''], suggestedLines = [''B2''], startLine = 2, endLine = 2,
       reasoning = ''r1'', confidence = 90\<rparr>]
     = applyEdits [''a'', ''b'', ''c'', ''d'', ''e'']
     [\<lparr>originalLines = [''b''], suggestedLines = [''B2''], startLine = 2, endLine = 2,
       reasoning = ''r1'', confidence = 90\<rparr>,
      \<lparr>originalLines = [''d''], suggestedLines = [''D2''], startLine = 4, endLine = 4,
       reasoning = ''r2'', confidence = 90\<rparr>]
   \<and> applyEdits [''a'', ''b'', ''c'', ''d'', ''e'']
     [\<lparr>originalLines = [''b''], suggestedLines = [''B2''], startLine = 2, endLine = 2,
       reasoning = ''r1'', confidence = 90\<rparr>,
      \<lparr>originalLines = [''d''], suggestedLines = [''D2''], startLine = 4, endLine = 4,
       reasoning = ''r2'', confidence = 90\<rparr>]
     = ''a'' @ [CHR 0x0A] @ ''B2'' @ [CHR 0x0A] @ ''c'' @ [CHR 0x0A] @ ''D2'' @ [CHR 0x0A] @ ''e''"
proof -
  let ?b = "\<lparr>originalLines = [''b''], suggestedLines = [''B2''], startLine = 2, endLine = 2,
       reasoning = ''r1'', confidence = 90\<rparr>"
  let ?d = "\<lparr>originalLines = [''d''], suggestedLines = [''D2''], startLine = 4, endLine = 4,
       reasoning = ''r2'', confidence = 90\<rparr>"
  let ?lines = "[''a'', ''b'', ''c'', ''d'', ''e'']"
  have v: "valid_for ?lines [?b, ?d]"
    by (simp add: valid_for_def)
  have n: "non_overlapping [?b, ?d]"
    by (simp add: non_overlapping_def less_Suc_eq nth_Cons')
  have m: "mset [?d, ?b] = mset [?b, ?d]"
    by simp
  have e: "applyEdits ?lines [?b, ?d]
     = ''a'' @ [CHR 0x0A] @ ''B2'' @ [CHR 0x0A] @ ''c'' @ [CHR 0x0A] @ ''D2'' @ [CHR 0x0A] @ ''e''"
    by (simp add: applyEdits_def applyEdits_lines_def sortedSuggestions_def js_sort_def
        byStartLineDesc_def applyEdits_step_def splice_def)
  from applyEdits_permutation_invariant [OF v n m] v n e show ?thesis
    by simp
qed

section \<open>Properties of the validator and of the parsers\<close>

lemma as_int_dec_rat: "as_int (Some (JNum m e)) = Some c \<Longrightarrow> dec_rat m e = of_int c"
proof (cases "0 \<le> e")
  case True
  assume "as_int (Some (JNum m e)) = Some c"
  with True show ?thesis by (simp add: as_int_def dec_rat_def)
next
  case False
  assume a: "as_int (Some (JNum m e)) = Some c"
  with False have d: "m mod 10 ^ nat (- e) = 0" and c: "c = m div 10 ^ nat (- e)"
    by (auto simp: as_int_def split: if_splits)
  from d have "(10::int) ^ nat (- e) dvd m" by (simp add: dvd_eq_mod_eq_0)
  then have "(of_int (m div 10 ^ nat (- e)) :: rat) = of_int m / of_int (10 ^ nat (- e))"
    by (rule of_int_div)
  with False c show ?thesis by (simp add: dec_rat_def)
qed

lemma those_list_map_Some [simp]: "those_list (map (\<lambda>v. Some (f v)) xs) = Some (map f xs)"
  by (induction xs) simp_all

lemma those_list_length: "those_list xs = Some ys \<Longrightarrow> length ys = length xs"
  by (induction xs arbitrary: ys) (auto split: option.splits)

lemma as_list_as_string_JStr [simp]: "as_list as_string (Some (JArr (map JStr xs))) = Some xs"
  by (induction xs) (simp_all add: as_list_def as_string_def)

lemma as_EditSuggestion_json [simp]: "as_EditSuggestion (Some (EditSuggestion_json t)) = Some t"
  by (simp add: as_EditSuggestion_def EditSuggestion_json_def as_string_def as_int_def)

lemma as_list_EditSuggestion_json [simp]:
  "as_list as_EditSuggestion (Some (JArr (map EditSuggestion_json ts))) = Some ts"
  by (induction ts) (simp_all add: as_list_def)

text \<open>The callback on a value of the declared shape is the validator's condition.\<close>

lemma suggestion_ok_typed:
  assumes "as_EditSuggestion (Some s) = Some t"
  shows "suggestion_ok s = Inr (keeps t)"
proof -
  from assms obtain ms where s: "s = JObj ms"
    by (auto simp: as_EditSuggestion_def split: json.splits)
  from assms s obtain ol sl c where
    ol: "as_list as_string (map_of ms ''originalLines'') = Some ol" and
    sl: "as_list as_string (map_of ms ''suggestedLines'') = Some sl" and
    c: "as_int (map_of ms ''confidence'') = Some c" and
    t: "originalLines t = ol" "suggestedLines t = sl" "confidence t = c"
    by (auto simp: as_EditSuggestion_def split: option.splits)
  from c obtain m e where cm: "map_of ms ''confidence'' = Some (JNum m e)"
    by (auto simp: as_int_def split: option.splits json.splits)
  from ol obtain ox where ox: "map_of ms ''originalLines'' = Some (JArr ox)"
    and oxl: "length ol = length ox"
    by (auto simp: as_list_def split: option.splits json.splits dest: those_list_length)
  from sl obtain sx where sx: "map_of ms ''suggestedLines'' = Some (JArr sx)"
    and sxl: "length sl = length sx"
    by (auto simp: as_list_def split: option.splits json.splits dest: those_list_length)
  from c cm have q: "dec_rat m e = of_int c" by (simp add: as_int_dec_rat)
  have 1: "to_number (Some (JNum m e)) = Inr (Fin (of_int c))"
    by (simp add: to_number_def q)
  have 2: "to_number (Some (JNum (int n) 0)) = Inr (Fin (of_nat n))" for n
    by (simp add: to_number_def dec_rat_def)
  have 3: "(ol \<noteq> []) = (0 < length ox)" "(sl \<noteq> []) = (0 < length sx)"
    using oxl sxl by auto
  show ?thesis
    unfolding suggestion_ok_def s
    by (simp add: cm ox sx get_member_def 1 2 keeps_def t 3)
qed

lemma js_filter_typed:
  assumes "those_list (map (\<lambda>v. as_EditSuggestion (Some v)) xs) = Some ts"
  shows "js_filter suggestion_ok xs = Inr (filter (\<lambda>s. suggestion_ok s = Inr True) xs)
         \<and> those_list (map (\<lambda>v. as_EditSuggestion (Some v))
              (filter (\<lambda>s. suggestion_ok s = Inr True) xs)) = Some (filter keeps ts)"
  using assms
proof (induction xs arbitrary: ts)
  case Nil
  then show ?case by simp
next
  case (Cons x xs)
  from Cons.prems obtain t ts' where
    x: "as_EditSuggestion (Some x) = Some t" and
    xs: "those_list (map (\<lambda>v. as_EditSuggestion (Some v)) xs) = Some ts'" and
    ts: "ts = t # ts'"
    by (auto split: option.splits)
  from Cons.IH [OF xs] suggestion_ok_typed [OF x] x ts show ?case
    by simp
qed

lemma js_filter_json:
  "js_filter suggestion_ok (map EditSuggestion_json ts)
     = Inr (map EditSuggestion_json (filter keeps ts))"
proof (induction ts)
  case Nil
  show ?case by simp
next
  case (Cons t ts)
  have "suggestion_ok (EditSuggestion_json t) = Inr (keeps t)"
    by (rule suggestion_ok_typed) simp
  with Cons show ?case by simp
qed

lemma response_total: "\<exists>v. analyzeAndGenerateEdits_response lang text = Inr v"
  by (cases "analyzeAndGenerateEdits_parse text")
     (simp_all add: analyzeAndGenerateEdits_response_def)

lemma response_parse_failure:
  "JSON_parse (trim (strip_fences text)) = None \<Longrightarrow>
   analyzeAndGenerateEdits_response lang text = Inr (fallbackAnalysis lang)"
  by (simp add: analyzeAndGenerateEdits_response_def analyzeAndGenerateEdits_parse_def)

lemma response_filtered:
  "JSON_parse (trim (strip_fences text)) = Some v \<Longrightarrow>
   get_prop v ''suggestions'' = Inr (Some (JArr xs)) \<Longrightarrow>
   js_filter suggestion_ok xs = Inr ys \<Longrightarrow>
   analyzeAndGenerateEdits_response lang text = Inr (set_prop v ''suggestions'' (JArr ys))"
  by (simp add: analyzeAndGenerateEdits_response_def analyzeAndGenerateEdits_parse_def)

lemma as_FileAnalysis_fallback:
  "as_FileAnalysis (fallbackAnalysis lang) =
     Some \<lparr>fa_language = lang, fa_complexity = 5, fa_suggestions = [],
           fa_risks = [''Analysis failed - manual review recommended''],
           fa_dependencies = []\<rparr>"
  by (simp add: as_FileAnalysis_def fallbackAnalysis_def as_string_def as_int_def as_list_def)

lemma response_typed:
  assumes "JSON_parse (trim (strip_fences text)) = Some v" and "as_FileAnalysis v = Some a"
  shows "\<exists>v'. analyzeAndGenerateEdits_response lang text = Inr v' \<and>
           as_FileAnalysis v' = Some (a\<lparr>fa_suggestions := filter keeps (fa_suggestions a)\<rparr>)"
proof -
  from assms(2) obtain ms where v: "v = JObj ms"
    by (auto simp: as_FileAnalysis_def split: json.splits)
  from assms(2) v obtain l c ss rs ds where
    l: "as_string (map_of ms ''language'') = Some l" and
    c: "as_int (map_of ms ''complexity'') = Some c" and
    ss: "as_list as_EditSuggestion (map_of ms ''suggestions'') = Some ss" and
    rs: "as_list as_string (map_of ms ''risks'') = Some rs" and
    ds: "as_list as_string (map_of ms ''dependencies'') = Some ds" and
    a: "a = \<lparr>fa_language = l, fa_complexity = c, fa_suggestions = ss, fa_risks = rs,
             fa_dependencies = ds\<rparr>"
    by (auto simp: as_FileAnalysis_def split: option.splits)
  from ss obtain xs where xs: "map_of ms ''suggestions'' = Some (JArr xs)"
    and dec: "those_list (map (\<lambda>v. as_EditSuggestion (Some v)) xs) = Some ss"
    by (auto simp: as_list_def split: option.splits json.splits)
  let ?ys = "filter (\<lambda>s. suggestion_ok s = Inr True) xs"
  from js_filter_typed [OF dec] have f: "js_filter suggestion_ok xs = Inr ?ys"
    and d: "those_list (map (\<lambda>v. as_EditSuggestion (Some v)) ?ys) = Some (filter keeps ss)"
    by simp_all
  have r: "analyzeAndGenerateEdits_response lang text
             = Inr (JObj (AList.update ''suggestions'' (JArr ?ys) ms))"
    using response_filtered [OF assms(1) _ f, of lang] xs v by (simp add: set_prop_def)
  have "as_FileAnalysis (JObj (AList.update ''suggestions'' (JArr ?ys) ms))
          = Some (a\<lparr>fa_suggestions := filter keeps (fa_suggestions a)\<rparr>)"
    using l c rs ds d
    by (simp add: as_FileAnalysis_def update_conv' a as_list_def)
  with r show ?thesis by blast
qed

text \<open>The parser of the analyze command.\<close>

lemma parseAnalysisResponse_total: "\<exists>r. parseAnalysisResponse response filePath = Inr r"
  by (cases "parseAnalysisResponse_try response filePath")
     (simp_all add: parseAnalysisResponse_def)

lemma parseAnalysisResponse_failure:
  "JSON_parse (case match_braces response of Some m \<Rightarrow> m | None \<Rightarrow> response) = None \<Longrightarrow>
   parseAnalysisResponse response filePath = Inr (fallbackResult filePath)"
  by (simp add: parseAnalysisResponse_def parseAnalysisResponse_try_def)

lemma as_AnalysisResult_fallback:
  "as_AnalysisResult (fallbackResult filePath) =
     Some \<lparr>result_file = filePath, issues = [],
           suggestions = [\<lparr>suggestion_line = 1, suggestion_type = Documentation,
              suggestion_description =
                ''Consider adding comprehensive documentation for this code'',
              suggestedCode = None\<rparr>],
           metrics = \<lparr>complexity = 5, maintainabilityIndex = 70, testCoverage = None,
              performance = Good, security = Moderate\<rparr>\<rparr>"
  by (simp add: as_AnalysisResult_def fallbackResult_def defaultMetrics_def as_list_def
      as_CodeSuggestion_def as_CodeMetrics_def as_int_def as_rat_def as_enum_def
      as_string_def as_optional_def dec_rat_def)

lemma as_AnalysisResult_neutral:
  "as_AnalysisResult (neutralResult filePath) =
     Some \<lparr>result_file = filePath, issues = [], suggestions = [],
           metrics = \<lparr>complexity = 0, maintainabilityIndex = 50, testCoverage = None,
              performance = Fair, security = Moderate\<rparr>\<rparr>"
  by (simp add: as_AnalysisResult_def neutralResult_def as_list_def
      as_CodeMetrics_def as_rat_def as_enum_def as_optional_def dec_rat_def)


section \<open>Properties of the analysis of a batch\<close>

lemma parseAnalysisResponse_file:
  "parseAnalysisResponse response filePath = Inr r \<Longrightarrow> raw_file r = filePath"
  by (auto simp: parseAnalysisResponse_def parseAnalysisResponse_try_def fallbackResult_def
      Let_def split: sum.splits option.splits)

lemma neutralResult_file: "raw_file (neutralResult filePath) = filePath"
  by (simp add: neutralResult_def)

lemma analyzeFile_try_failed:
  "oracle_failed w i \<Longrightarrow> \<exists>e. analyzeFile_try w i filePath = Inl e"
  by (auto simp: oracle_failed_def analyzeFile_try_def split: sum.splits option.splits)

lemma oracle_answered:
  "\<not> oracle_failed w i \<Longrightarrow> \<exists>answer. generateContent w i = Inr (Some answer)"
  by (auto simp: oracle_failed_def split: sum.splits option.splits)

lemma analyzeFile_try_answered:
  "\<not> oracle_failed w i \<Longrightarrow> generateContent w i = Inr (Some answer) \<Longrightarrow>
   analyzeFile_try w i filePath = parseAnalysisResponse answer filePath"
  by (auto simp: oracle_failed_def analyzeFile_try_def split: sum.splits option.splits)

lemma analysis_succeeded_iff: "analysis_succeeded w i filePath \<longleftrightarrow> \<not> oracle_failed w i"
proof (cases "oracle_failed w i")
  case True
  with analyzeFile_try_failed [of w i filePath] show ?thesis
    by (auto simp: analysis_succeeded_def)
next
  case False
  from oracle_answered [OF False] obtain answer
    where a: "generateContent w i = Inr (Some answer)" by blast
  from parseAnalysisResponse_total [of answer filePath] obtain r
    where "parseAnalysisResponse answer filePath = Inr r" by blast
  with analyzeFile_try_answered [OF False a, of filePath] False show ?thesis
    by (simp add: analysis_succeeded_def)
qed

lemma analyzeFile_contained:
  assumes "contentGeneratorConfig w" and "readable w filePath"
  shows "\<exists>r. analyzeFile w i filePath full = Inr r
           \<and> raw_file r = filePath
           \<and> (oracle_failed w i \<longrightarrow> r = neutralResult filePath)
           \<and> (\<forall>answer. \<not> oracle_failed w i \<and> generateContent w i = Inr (Some answer) \<longrightarrow>
                  parseAnalysisResponse answer filePath = Inr r)"
proof (cases "oracle_failed w i")
  case True
  from analyzeFile_try_failed [OF True, of filePath] obtain e
    where "analyzeFile_try w i filePath = Inl e" by blast
  with assms have "analyzeFile w i filePath full = Inr (neutralResult filePath)"
    by (auto simp: analyzeFile_def readable_def split: sum.splits)
  with True show ?thesis by (simp add: neutralResult_file)
next
  case False
  from oracle_answered [OF False] obtain answer
    where a: "generateContent w i = Inr (Some answer)" by blast
  from parseAnalysisResponse_total [of answer filePath] obtain r
    where r: "parseAnalysisResponse answer filePath = Inr r" by blast
  from analyzeFile_try_answered [OF False a, of filePath] r
  have "analyzeFile_try w i filePath = Inr r" by simp
  with assms have "analyzeFile w i filePath full = Inr r"
    by (auto simp: analyzeFile_def readable_def split: sum.splits)
  with False a r parseAnalysisResponse_file [OF r] show ?thesis by simp
qed

lemma analyzeFiles_contained:
  assumes "contentGeneratorConfig w" and "list_all (readable w) files"
  shows "\<exists>rs. analyzeFiles w i files full = Inr rs
           \<and> length rs = length files
           \<and> (\<forall>k < length files.
                 raw_file (rs ! k) = files ! k
                 \<and> (oracle_failed w (i + k) \<longrightarrow> rs ! k = neutralResult (files ! k))
                 \<and> (\<forall>answer. \<not> oracle_failed w (i + k)
                        \<and> generateContent w (i + k) = Inr (Some answer) \<longrightarrow>
                        parseAnalysisResponse answer (files ! k) = Inr (rs ! k)))"
  using assms(2)
proof (induction files arbitrary: i)
  case Nil
  show ?case by simp
next
  case (Cons f files)
  let ?P = "\<lambda>j g r. raw_file r = g
              \<and> (oracle_failed w j \<longrightarrow> r = neutralResult g)
              \<and> (\<forall>answer. \<not> oracle_failed w j \<and> generateContent w j = Inr (Some answer) \<longrightarrow>
                     parseAnalysisResponse answer g = Inr r)"
  from Cons.prems have r: "readable w f" and rs: "list_all (readable w) files" by simp_all
  from analyzeFile_contained [OF assms(1) r, of i full] obtain x
    where x: "analyzeFile w i f full = Inr x" and px: "?P i f x" by blast
  from Cons.IH [OF rs, of "Suc i"] obtain xs
    where xs: "analyzeFiles w (Suc i) files full = Inr xs"
      and len: "length xs = length files"
      and pxs: "\<forall>k < length files. ?P (Suc i + k) (files ! k) (xs ! k)" by blast
  have 1: "analyzeFiles w i (f # files) full = Inr (x # xs)"
    using x xs by simp
  have 2: "length (x # xs) = length (f # files)"
    using len by simp
  have 3: "\<forall>k < length (f # files). ?P (i + k) ((f # files) ! k) ((x # xs) ! k)"
  proof (intro allI impI)
    fix k
    assume k: "k < length (f # files)"
    show "?P (i + k) ((f # files) ! k) ((x # xs) ! k)"
    proof (cases k)
      case 0
      with px show ?thesis by simp
    next
      case (Suc k')
      with k have "k' < length files" by simp
      with pxs have "?P (Suc i + k') (files ! k') (xs ! k')" by blast
      with Suc show ?thesis by simp
    qed
  qed
  from 1 2 3 show ?case by blast
qed

text \<open>The summary as sums over the results.\<close>

lemma foldl_count:
  "foldl (\<lambda>total r. if length (f r) > 0 then total + length (f r) else total) a rs
     = a + sum_list (map (\<lambda>r. length (f r)) rs)"
  by (induction rs arbitrary: a) simp_all

lemma foldl_sum: "foldl (\<lambda>sum r. sum + f r) (a::rat) rs = a + sum_list (map f rs)"
  by (induction rs arbitrary: a) simp_all

lemma displayResults_eq:
  "displayResults rs =
     \<lparr>filesAnalyzed = length rs,
      totalIssues = sum_list (map (\<lambda>r. length (issues r)) rs),
      totalSuggestions = sum_list (map (\<lambda>r. length (suggestions r)) rs),
      avgComplexity = js_div (sum_list (map (\<lambda>r. complexity (metrics r)) rs)) (length rs),
      avgMaintainability =
        js_div (sum_list (map (\<lambda>r. maintainabilityIndex (metrics r)) rs)) (length rs)\<rparr>"
  unfolding displayResults_def foldl_count foldl_sum by simp

lemma displayResults_empty:
  "displayResults [] =
     \<lparr>filesAnalyzed = 0, totalIssues = 0, totalSuggestions = 0, avgComplexity = NaN,
      avgMaintainability = NaN\<rparr>"
  by (simp add: displayResults_def js_div_def)


section \<open>Properties of the edit command\<close>

lemma rest_extends:
  "\<exists>ev. fst (handleEditCommand_rest w f c opts tr) = tr @ ev"
  by (auto simp: handleEditCommand_rest_def Let_def
      split: prod.splits sum.splits option.splits if_splits)

lemma handleEditCommand_backup_first:
  assumes "backup opts \<noteq> Some False" and "fs_readFile w f = Inr c"
  shows "not_before (FsWrite (backupPath w f) c) (needs_backup f)
           (fst (handleEditCommand w f p opts))"
proof (cases "fs_access w f")
  case (Inl e)
  then show ?thesis by (simp add: handleEditCommand_def needs_backup_def)
next
  case (Inr u)
  show ?thesis
  proof (cases "fs_writeFile w (backupPath w f) c")
    case (Inl e)
    with Inr assms show ?thesis by (simp add: handleEditCommand_def needs_backup_def)
  next
    case (Inr u')
    obtain ev where ev: "fst (handleEditCommand_rest w f c opts
        [FsAccess f, FsRead f, FsWrite (backupPath w f) c])
        = [FsAccess f, FsRead f, FsWrite (backupPath w f) c] @ ev"
      using rest_extends by blast
    from \<open>fs_access w f = Inr u\<close> Inr assms
    have "fst (handleEditCommand w f p opts)
            = [FsAccess f, FsRead f, FsWrite (backupPath w f) c] @ ev"
      by (simp add: handleEditCommand_def ev)
    then show ?thesis by (simp add: needs_backup_def)
  qed
qed

lemma handleEditCommand_no_read:
  assumes "fs_readFile w f = Inl e"
  shows "list_all (\<lambda>ev. \<not> needs_backup f ev) (fst (handleEditCommand w f p opts))"
  using assms by (cases "fs_access w f") (simp_all add: handleEditCommand_def needs_backup_def)

lemma handleEditCommand_backup_written:
  assumes "backup opts \<noteq> Some False" and "fs_access w f = Inr u" and "fs_readFile w f = Inr c"
    and "fs_writeFile w (backupPath w f) c = Inr u'"
  shows "\<exists>ev. fst (handleEditCommand w f p opts)
           = [FsAccess f, FsRead f, FsWrite (backupPath w f) c] @ ev"
proof -
  obtain ev where ev: "fst (handleEditCommand_rest w f c opts
        [FsAccess f, FsRead f, FsWrite (backupPath w f) c])
        = [FsAccess f, FsRead f, FsWrite (backupPath w f) c] @ ev"
    using rest_extends by blast
  from assms have "fst (handleEditCommand w f p opts)
            = [FsAccess f, FsRead f, FsWrite (backupPath w f) c] @ ev"
    by (simp add: handleEditCommand_def ev)
  then show ?thesis by blast
qed

section \<open>The span that the analyze command parses\<close>


section \<open>The examples, evaluated\<close>

lemma edit_answer_parsed:
  "analyzeAndGenerateEdits_parse edit_answer =
     Inr (JObj [(''language'', JStr ''typescript''), (''complexity'', JNum 2 0),
                (''suggestions'',
                 JArr [JObj [(''originalLines'', JArr [JStr ''let x = 1'']),
                             (''suggestedLines'', JArr [JStr ''const x = 1'']),
                             (''startLine'', JNum 1 0), (''endLine'', JNum 1 0),
                             (''reasoning'', JStr ''never reassigned''),
                             (''confidence'', JNum 90 0)]]),
                (''risks'', JArr []), (''dependencies'', JArr [])])"
  by code_simp

lemma edit_answer_typed:
  "as_FileAnalysis
     (JObj [(''language'', JStr ''typescript''), (''complexity'', JNum 2 0),
            (''suggestions'',
             JArr [JObj [(''originalLines'', JArr [JStr ''let x = 1'']),
                         (''suggestedLines'', JArr [JStr ''const x = 1'']),
                         (''startLine'', JNum 1 0), (''endLine'', JNum 1 0),
                         (''reasoning'', JStr ''never reassigned''),
                         (''confidence'', JNum 90 0)]]),
            (''risks'', JArr []), (''dependencies'', JArr [])])
   = Some \<lparr>fa_language = ''typescript'', fa_complexity = 2,
           fa_suggestions =
             [\<lparr>originalLines = [''let x = 1''], suggestedLines = [''const x = 1''],
               startLine = 1, endLine = 1, reasoning = ''never reassigned'',
               confidence = 90\<rparr>],
           fa_risks = [], fa_dependencies = []\<rparr>"
  by (simp add: as_FileAnalysis_def as_EditSuggestion_def as_list_def as_string_def as_int_def)

lemma edit_answer_applied:
  "applyEdits (split_nl ''let x = 1'')
     [\<lparr>originalLines = [''let x = 1''], suggestedLines = [''const x = 1''],
       startLine = 1, endLine = 1, reasoning = ''never reassigned'', confidence = 90\<rparr>]
   = ''const x = 1''"
  by (simp add: applyEdits_def applyEdits_lines_def sortedSuggestions_def js_sort_def
      applyEdits_step_def splice_def)

lemma edit_answer_not_empty: "edit_answer \<noteq> []"
  by (simp add: edit_answer_def fence_def)

lemma metrics_answer_parsed:
  "parseAnalysisResponse metrics_answer ''a.ts'' =
     Inr \<lparr>raw_file = ''a.ts'', raw_issues = JArr [], raw_suggestions = JArr [],
          raw_metrics =
            JObj [(''complexity'', JNum 4 0), (''maintainabilityIndex'', JNum 80 0),
                  (''performance'', JStr ''good''), (''security'', JStr ''secure'')]\<rparr>"
  by code_simp

lemma metrics_answer_not_empty: "metrics_answer \<noteq> []"
  by (simp add: metrics_answer_def)

lemma metrics_answer_typed:
  "as_AnalysisResult
     \<lparr>raw_file = ''a.ts'', raw_issues = JArr [], raw_suggestions = JArr [],
      raw_metrics =
        JObj [(''complexity'', JNum 4 0), (''maintainabilityIndex'', JNum 80 0),
              (''performance'', JStr ''good''), (''security'', JStr ''secure'')]\<rparr>
   = Some \<lparr>result_file = ''a.ts'', issues = [], suggestions = [],
           metrics = \<lparr>complexity = 4, maintainabilityIndex = 80, testCoverage = None,
                      performance = Good, security = Secure\<rparr>\<rparr>"
  by (simp add: as_AnalysisResult_def as_list_def as_CodeMetrics_def as_rat_def as_enum_def
      as_optional_def dec_rat_def)

lemma one_failure_batch:
  "analyzeFiles one_failure_world 0 [''a.ts'', ''b.ts''] False =
     Inr [\<lparr>raw_file = ''a.ts'', raw_issues = JArr [], raw_suggestions = JArr [],
           raw_metrics =
             JObj [(''complexity'', JNum 4 0), (''maintainabilityIndex'', JNum 80 0),
                   (''performance'', JStr ''good''), (''security'', JStr ''secure'')]\<rparr>,
          neutralResult ''b.ts'']"
  by (simp add: one_failure_world_def quiet_world_def analyzeFile_def analyzeFile_try_def
      metrics_answer_parsed metrics_answer_not_empty)

lemma one_failure_flags:
  "analysis_succeeded one_failure_world 0 ''a.ts''
   \<and> \<not> analysis_succeeded one_failure_world 1 ''b.ts''"
  by (simp add: analysis_succeeded_def one_failure_world_def quiet_world_def
      analyzeFile_try_def metrics_answer_parsed metrics_answer_not_empty)

lemma backupPath_quiet: "backupPath quiet_world ''a.ts'' = ''a.ts.backup.1700000000000''"
  by (simp add: backupPath_def quiet_world_def show_nat_def show_nat_aux.simps digit_char_def)

lemma language_of_py: "getLanguageFromExtension (path_extname ''src/a.PY'') = ''python''"
  by code_simp

section \<open>The validator\<close>

text \<open>
  C5. The validator keeps exactly the suggestions with a confidence of at least 70 and
  non-empty original and suggested lines, in their order and unchanged: on the JSON form
  of any typed list, and on any JSON array that stands for a typed list.
\<close>

theorem validator_keeps_exactly:
  "js_filter suggestion_ok (map EditSuggestion_json ts)
     = Inr (map EditSuggestion_json (filter keeps ts))
   \<and> subseq (filter keeps ts) ts
   \<and> keeps t = (70 \<le> confidence t \<and> originalLines t \<noteq> [] \<and> suggestedLines t \<noteq> [])
   \<and> (as_list as_EditSuggestion (Some (JArr xs)) = Some us \<longrightarrow>
        (\<exists>ys. js_filter suggestion_ok xs = Inr ys \<and> subseq ys xs
           \<and> as_list as_EditSuggestion (Some (JArr ys)) = Some (filter keeps us)))"
proof -
  have "as_list as_EditSuggestion (Some (JArr xs)) = Some us \<longrightarrow>
        (\<exists>ys. js_filter suggestion_ok xs = Inr ys \<and> subseq ys xs
           \<and> as_list as_EditSuggestion (Some (JArr ys)) = Some (filter keeps us))"
  proof
    assume "as_list as_EditSuggestion (Some (JArr xs)) = Some us"
    then have "those_list (map (\<lambda>v. as_EditSuggestion (Some v)) xs) = Some us"
      by (simp add: as_list_def)
    from js_filter_typed [OF this]
    show "\<exists>ys. js_filter suggestion_ok xs = Inr ys \<and> subseq ys xs
           \<and> as_list as_EditSuggestion (Some (JArr ys)) = Some (filter keeps us)"
      by (auto simp: as_list_def)
  qed
  with js_filter_json [of ts] show ?thesis
    by (simp add: keeps_def)
qed

theorem validator_keeps_exactly_witness:
  "js_filter suggestion_ok
     (map EditSuggestion_json
        [\<lparr>originalLines = [''a''], suggestedLines = [''b''], startLine = 1, endLine = 1,
          reasoning = ''low'', confidence = 69\<rparr>,
         \<lparr>originalLines = [''c''], suggestedLines = [''d''], startLine = 2, endLine = 2,
          reasoning = ''edge'', confidence = 70\<rparr>,
         \<lparr>originalLines = [], suggestedLines = [''e''], startLine = 3, endLine = 3,
          reasoning = ''empty'', confidence = 95\<rparr>])
     = Inr (map EditSuggestion_json
        [\<lparr>originalLines = [''c''], suggestedLines = [''d''], startLine = 2, endLine = 2,
          reasoning = ''edge'', confidence = 70\<rparr>])
   \<and> \<not> keeps \<lparr>originalLines = [''a''], suggestedLines = [''b''], startLine = 1, endLine = 1,
          reasoning = ''low'', confidence = 69\<rparr>
   \<and> keeps \<lparr>originalLines = [''c''], suggestedLines = [''d''], startLine = 2, endLine = 2,
          reasoning = ''edge'', confidence = 70\<rparr>
   \<and> as_list as_EditSuggestion (Some (JArr (map EditSuggestion_json
        [\<lparr>originalLines = [''a''], suggestedLines = [''b''], startLine = 1, endLine = 1,
          reasoning = ''low'', confidence = 69\<rparr>,
         \<lparr>originalLines = [''c''], suggestedLines = [''d''], startLine = 2, endLine = 2,
          reasoning = ''edge'', confidence = 70\<rparr>])))
     = Some [\<lparr>originalLines = [''a''], suggestedLines = [''b''], startLine = 1, endLine = 1,
          reasoning = ''low'', confidence = 69\<rparr>,
         \<lparr>originalLines = [''c''], suggestedLines = [''d''], startLine = 2, endLine = 2,
          reasoning = ''edge'', confidence = 70\<rparr>]
   \<and> (\<exists>ys. js_filter suggestion_ok (map EditSuggestion_json
        [\<lparr>originalLines = [''a''], suggestedLines = [''b''], startLine = 1, endLine = 1,
          reasoning = ''low'', confidence = 69\<rparr>,
         \<lparr>originalLines = [''c''], suggestedLines = [''d''], startLine = 2, endLine = 2,
          reasoning = ''edge'', confidence = 70\<rparr>]) = Inr ys
        \<and> as_list as_EditSuggestion (Some (JArr ys))
          = Some [\<lparr>originalLines = [''c''], suggestedLines = [''d''], startLine = 2,
                   endLine = 2, reasoning = ''edge'', confidence = 70\<rparr>])"
proof -
  let ?low = "\<lparr>originalLines = [''a''], suggestedLines = [''b''], startLine = 1, endLine = 1,
          reasoning = ''low'', confidence = 69\<rparr>"
  let ?edge = "\<lparr>originalLines = [''c''], suggestedLines = [''d''], startLine = 2, endLine = 2,
          reasoning = ''edge'', confidence = 70\<rparr>"
  let ?empty = "\<lparr>originalLines = [], suggestedLines = [''e''], startLine = 3, endLine = 3,
          reasoning = ''empty'', confidence = 95\<rparr>"
  have d: "as_list as_EditSuggestion (Some (JArr (map EditSuggestion_json [?low, ?edge])))
             = Some [?low, ?edge]"
    by (rule as_list_EditSuggestion_json)
  have f3: "filter keeps [?low, ?edge, ?empty] = [?edge]"
    by (simp add: keeps_def)
  have f2: "filter keeps [?low, ?edge] = [?edge]"
    by (simp add: keeps_def)
  have k1: "\<not> keeps ?low" and k2: "keeps ?edge"
    by (simp_all add: keeps_def)
  note a = validator_keeps_exactly [of "[?low, ?edge, ?empty]" ?low
      "map EditSuggestion_json [?low, ?edge]" "[?low, ?edge]"]
  from a have 1: "js_filter suggestion_ok (map EditSuggestion_json [?low, ?edge, ?empty])
      = Inr (map EditSuggestion_json (filter keeps [?low, ?edge, ?empty]))"
    by (rule conjunct1)
  from a d have "\<exists>ys. js_filter suggestion_ok (map EditSuggestion_json [?low, ?edge]) = Inr ys
      \<and> subseq ys (map EditSuggestion_json [?low, ?edge])
      \<and> as_list as_EditSuggestion (Some (JArr ys)) = Some (filter keeps [?low, ?edge])"
    by blast
  then have 2: "\<exists>ys. js_filter suggestion_ok (map EditSuggestion_json [?low, ?edge]) = Inr ys
      \<and> as_list as_EditSuggestion (Some (JArr ys)) = Some [?edge]"
    unfolding f2 by blast
  from 1 [unfolded f3] k1 k2 d 2 show ?thesis
    by (intro conjI)
qed

section \<open>The response parsers\<close>

lemma analyzeAndGenerateEdits_oracle_failure:
  assumes "contentGeneratorConfig w" and "generateContent w 0 = Inl e"
  shows "snd (analyzeAndGenerateEdits w f c ctx)
           = Inr (fallbackAnalysis (getLanguageFromExtension (path_extname f)))"
proof -
  from assms(2) have "\<exists>e'. analyzeAndGenerateEdits_try w = Inl e'"
    by (cases "clientReady w 0") (simp_all add: analyzeAndGenerateEdits_try_def)
  with assms(1) show ?thesis
    by (auto simp: analyzeAndGenerateEdits_def Let_def)
qed

lemma analyzeAndGenerateEdits_total:
  assumes "contentGeneratorConfig w"
  shows "\<exists>v. snd (analyzeAndGenerateEdits w f c ctx) = Inr v"
  using assms
  by (cases "analyzeAndGenerateEdits_try w") (simp_all add: analyzeAndGenerateEdits_def Let_def)

text \<open>
  C6, as amended. Both response parsers return normally on every text. When the text they
  hand to \<open>JSON.parse\<close> is not JSON they return the documented fallback, and so does the
  edit analysis when the oracle call fails; both fallbacks have the declared shape. When
  the parsed JSON has the shape of \<open>FileAnalysis\<close>, so has the result, with only the
  suggestions filtered. Nothing is promised for JSON of another shape.
\<close>

theorem parsers_never_raise:
  "(\<exists>v. analyzeAndGenerateEdits_response lang answer = Inr v)
   \<and> (\<exists>r. parseAnalysisResponse response filePath = Inr r)
   \<and> (JSON_parse (trim (strip_fences answer1)) = None \<longrightarrow>
        analyzeAndGenerateEdits_response lang answer1 = Inr (fallbackAnalysis lang))
   \<and> (JSON_parse (case match_braces response1 of Some m \<Rightarrow> m | None \<Rightarrow> response1) = None \<longrightarrow>
        parseAnalysisResponse response1 filePath = Inr (fallbackResult filePath))
   \<and> (contentGeneratorConfig w \<and> generateContent w 0 = Inl e \<longrightarrow>
        snd (analyzeAndGenerateEdits w f c ctx)
          = Inr (fallbackAnalysis (getLanguageFromExtension (path_extname f))))
   \<and> as_FileAnalysis (fallbackAnalysis lang) =
        Some \<lparr>fa_language = lang, fa_complexity = 5, fa_suggestions = [],
              fa_risks = [''Analysis failed - manual review recommended''],
              fa_dependencies = []\<rparr>
   \<and> as_AnalysisResult (fallbackResult filePath) =
        Some \<lparr>result_file = filePath, issues = [],
              suggestions = [\<lparr>suggestion_line = 1, suggestion_type = Documentation,
                 suggestion_description =
                   ''Consider adding comprehensive documentation for this code'',
                 suggestedCode = None\<rparr>],
              metrics = \<lparr>complexity = 5, maintainabilityIndex = 70, testCoverage = None,
                 performance = Good, security = Moderate\<rparr>\<rparr>
   \<and> (JSON_parse (trim (strip_fences answer2)) = Some v2 \<and> as_FileAnalysis v2 = Some a \<longrightarrow>
        (\<exists>v'. analyzeAndGenerateEdits_response lang answer2 = Inr v' \<and>
           as_FileAnalysis v' = Some (a\<lparr>fa_suggestions := filter keeps (fa_suggestions a)\<rparr>)))"
  using response_total [of lang answer] parseAnalysisResponse_total [of response filePath]
    response_parse_failure [of answer1 lang] parseAnalysisResponse_failure [of response1 filePath]
    analyzeAndGenerateEdits_oracle_failure [of w e f c ctx]
    as_FileAnalysis_fallback [of lang] as_AnalysisResult_fallback [of filePath]
    response_typed [of answer2 v2 a lang]
  by blast

lemma not_json_1: "JSON_parse (trim (strip_fences ''I could not analyze this file.'')) = None"
  by code_simp

lemma not_json_2:
  "JSON_parse (case match_braces ''{oops'' of Some m \<Rightarrow> m | None \<Rightarrow> ''{oops'') = None"
  by code_simp

lemma edit_answer_cleaned:
  "JSON_parse (trim (strip_fences edit_answer)) =
     Some (JObj [(''language'', JStr ''typescript''), (''complexity'', JNum 2 0),
                (''suggestions'',
                 JArr [JObj [(''originalLines'', JArr [JStr ''let x = 1'']),
                             (''suggestedLines'', JArr [JStr ''const x = 1'']),
                             (''startLine'', JNum 1 0), (''endLine'', JNum 1 0),
                             (''reasoning'', JStr ''never reassigned''),
                             (''confidence'', JNum 90 0)]]),
                (''risks'', JArr []), (''dependencies'', JArr [])])"
  by code_simp

theorem parsers_never_raise_witness:
  "JSON_parse (trim (strip_fences ''I could not analyze this file.'')) = None
   \<and> analyzeAndGenerateEdits_response ''python'' ''I could not analyze this file.''
       = Inr (fallbackAnalysis ''python'')
   \<and> JSON_parse (case match_braces ''{oops'' of Some m \<Rightarrow> m | None \<Rightarrow> ''{oops'') = None
   \<and> parseAnalysisResponse ''{oops'' ''a.py'' = Inr (fallbackResult ''a.py'')
   \<and> contentGeneratorConfig (quiet_world\<lparr>generateContent := (\<lambda>i. Inl (Error ''timeout''))\<rparr>)
   \<and> snd (analyzeAndGenerateEdits
            (quiet_world\<lparr>generateContent := (\<lambda>i. Inl (Error ''timeout''))\<rparr>)
            ''src/a.PY'' ''x = 1'' None)
       = Inr (fallbackAnalysis ''python'')
   \<and> (\<exists>v'. analyzeAndGenerateEdits_response ''typescript'' edit_answer = Inr v' \<and>
         as_FileAnalysis v' =
           Some \<lparr>fa_language = ''typescript'', fa_complexity = 2,
                 fa_suggestions =
                   [\<lparr>originalLines = [''let x = 1''], suggestedLines = [''const x = 1''],
                     startLine = 1, endLine = 1, reasoning = ''never reassigned'',
                     confidence = 90\<rparr>],
                 fa_risks = [], fa_dependencies = []\<rparr>)"
proof -
  let ?w = "quiet_world\<lparr>generateContent := (\<lambda>i. Inl (Error ''timeout''))\<rparr>"
  let ?a = "\<lparr>fa_language = ''typescript'', fa_complexity = 2,
                 fa_suggestions =
                   [\<lparr>originalLines = [''let x = 1''], suggestedLines = [''const x = 1''],
                     startLine = 1, endLine = 1, reasoning = ''never reassigned'',
                     confidence = 90\<rparr>],
                 fa_risks = [], fa_dependencies = []\<rparr>"
  have cfg: "contentGeneratorConfig ?w" and gen: "generateContent ?w 0 = Inl (Error ''timeout'')"
    by (simp_all add: quiet_world_def)
  have k: "?a\<lparr>fa_suggestions := filter keeps (fa_suggestions ?a)\<rparr> = ?a"
    by (simp add: keeps_def)
  note t = parsers_never_raise [of "''python''" "[]" "[]" "''a.py''"
      "''I could not analyze this file.''" "''{oops''" ?w "Error ''timeout''" "''src/a.PY''"
      "''x = 1''" None]
  note u = parsers_never_raise [of "''typescript''" "[]" "[]" "''a.py''" "[]" "[]" ?w
      "Error ''timeout''" "''src/a.PY''" "''x = 1''" None edit_answer _ ?a]
  from t not_json_1 have 1: "analyzeAndGenerateEdits_response ''python''
      ''I could not analyze this file.'' = Inr (fallbackAnalysis ''python'')"
    by blast
  from t not_json_2 have 2: "parseAnalysisResponse ''{oops'' ''a.py'' = Inr (fallbackResult ''a.py'')"
    by blast
  from t cfg gen have 3: "snd (analyzeAndGenerateEdits ?w ''src/a.PY'' ''x = 1'' None)
       = Inr (fallbackAnalysis ''python'')"
    unfolding language_of_py by blast
  from u edit_answer_cleaned edit_answer_typed
  have "\<exists>v'. analyzeAndGenerateEdits_response ''typescript'' edit_answer = Inr v' \<and>
         as_FileAnalysis v' = Some (?a\<lparr>fa_suggestions := filter keeps (fa_suggestions ?a)\<rparr>)"
    by blast
  then have 4: "\<exists>v'. analyzeAndGenerateEdits_response ''typescript'' edit_answer = Inr v' \<and>
         as_FileAnalysis v' = Some ?a"
    unfolding k .
  from not_json_1 1 not_json_2 2 cfg 3 4 show ?thesis
    by (intro conjI)
qed

text \<open>
  The claim as stated fails: the result is not always well-formed. The edit parser returns
  an object without language, complexity, risks and dependencies as it came, and the
  parser of the analyze command passes a number on as the metrics.
\<close>

theorem parser_result_not_well_formed:
  "analyzeAndGenerateEdits_response ''javascript'' bare_answer
     = Inr (JObj [(''suggestions'', JArr [])])
   \<and> as_FileAnalysis (JObj [(''suggestions'', JArr [])]) = None
   \<and> parseAnalysisResponse odd_metrics_answer ''a.ts''
     = Inr \<lparr>raw_file = ''a.ts'', raw_issues = JArr [], raw_suggestions = JArr [],
            raw_metrics = JNum 5 0\<rparr>
   \<and> as_AnalysisResult \<lparr>raw_file = ''a.ts'', raw_issues = JArr [], raw_suggestions = JArr [],
            raw_metrics = JNum 5 0\<rparr> = None"
proof -
  have 1: "analyzeAndGenerateEdits_response ''javascript'' bare_answer
     = Inr (JObj [(''suggestions'', JArr [])])"
    by code_simp
  have 2: "as_FileAnalysis (JObj [(''suggestions'', JArr [])]) = None"
    by (simp add: as_FileAnalysis_def as_string_def)
  have 3: "parseAnalysisResponse odd_metrics_answer ''a.ts''
     = Inr \<lparr>raw_file = ''a.ts'', raw_issues = JArr [], raw_suggestions = JArr [],
            raw_metrics = JNum 5 0\<rparr>"
    by code_simp
  have 4: "as_AnalysisResult \<lparr>raw_file = ''a.ts'', raw_issues = JArr [],
            raw_suggestions = JArr [], raw_metrics = JNum 5 0\<rparr> = None"
    by (simp add: as_AnalysisResult_def as_CodeMetrics_def as_list_def)
  from 1 2 3 4 show ?thesis by (intro conjI)
qed






section \<open>The aggregator\<close>

text \<open>
  C1, as amended. When the configuration is present and every file of the batch can be
  read, the loop never aborts: it returns one result per file, in order, each under the
  path of its file. A file for which the oracle fails (the client, the generation, an
  absent or empty answer) gets the placeholder with neutral metrics and no issues or
  suggestions; every other file gets what the parser makes of its own answer, whatever
  happened to the files before it.
\<close>

theorem oracle_failures_contained:
  assumes "contentGeneratorConfig w" and "list_all (readable w) files"
  shows "(\<exists>rs. analyzeFiles w i files full = Inr rs
            \<and> length rs = length files
            \<and> (\<forall>k < length files.
                  raw_file (rs ! k) = files ! k
                  \<and> (oracle_failed w (i + k) \<longrightarrow> rs ! k = neutralResult (files ! k))
                  \<and> (\<forall>answer. \<not> oracle_failed w (i + k)
                         \<and> generateContent w (i + k) = Inr (Some answer) \<longrightarrow>
                         parseAnalysisResponse answer (files ! k) = Inr (rs ! k))))
         \<and> as_AnalysisResult (neutralResult f) =
             Some \<lparr>result_file = f, issues = [], suggestions = [],
                   metrics = \<lparr>complexity = 0, maintainabilityIndex = 50, testCoverage = None,
                      performance = Fair, security = Moderate\<rparr>\<rparr>"
  using analyzeFiles_contained [OF assms, of i full] as_AnalysisResult_neutral [of f]
  by (rule conjI)

theorem oracle_failures_contained_witness:
  "contentGeneratorConfig one_failure_world
   \<and> list_all (readable one_failure_world) [''a.ts'', ''b.ts'', ''c.ts'']
   \<and> clientReady one_failure_world 0 = Inr ()
   \<and> generateContent one_failure_world 0 = Inr (Some metrics_answer)
   \<and> generateContent one_failure_world 1 = Inl (Error ''quota exceeded'')
   \<and> generateContent one_failure_world 2 = Inl (Error ''quota exceeded'')
   \<and> \<not> oracle_failed one_failure_world 0
   \<and> oracle_failed one_failure_world 1
   \<and> oracle_failed one_failure_world 2
   \<and> analyzeFiles one_failure_world 0 [''a.ts'', ''b.ts'', ''c.ts''] False =
       Inr [\<lparr>raw_file = ''a.ts'', raw_issues = JArr [], raw_suggestions = JArr [],
             raw_metrics =
               JObj [(''complexity'', JNum 4 0), (''maintainabilityIndex'', JNum 80 0),
                     (''performance'', JStr ''good''), (''security'', JStr ''secure'')]\<rparr>,
            neutralResult ''b.ts'',
            neutralResult ''c.ts'']"
proof -
  let ?w = one_failure_world
  let ?files = "[''a.ts'', ''b.ts'', ''c.ts'']"
  have c: "contentGeneratorConfig ?w"
    by (simp add: one_failure_world_def quiet_world_def)
  have r: "list_all (readable ?w) ?files"
    by (simp add: readable_def one_failure_world_def quiet_world_def)
  have cl: "clientReady ?w 0 = Inr ()"
    by (simp add: one_failure_world_def quiet_world_def)
  have g0: "generateContent ?w 0 = Inr (Some metrics_answer)"
    and g1: "generateContent ?w 1 = Inl (Error ''quota exceeded'')"
    and g2: "generateContent ?w 2 = Inl (Error ''quota exceeded'')"
    by (simp_all add: one_failure_world_def quiet_world_def)
  have f0: "\<not> oracle_failed ?w 0"
    by (simp add: oracle_failed_def cl g0 metrics_answer_not_empty)
  have f1: "oracle_failed ?w 1"
    using g1 by (auto simp: oracle_failed_def split: sum.splits)
  have f2: "oracle_failed ?w 2"
    using g2 by (auto simp: oracle_failed_def split: sum.splits)
  from oracle_failures_contained [OF c r, of 0 False "''b.ts''"] obtain rs
    where run: "analyzeFiles ?w 0 ?files False = Inr rs"
      and len: "length rs = length ?files"
      and each: "\<forall>k < length ?files.
                  raw_file (rs ! k) = ?files ! k
                  \<and> (oracle_failed ?w (0 + k) \<longrightarrow> rs ! k = neutralResult (?files ! k))
                  \<and> (\<forall>answer. \<not> oracle_failed ?w (0 + k)
                         \<and> generateContent ?w (0 + k) = Inr (Some answer) \<longrightarrow>
                         parseAnalysisResponse answer (?files ! k) = Inr (rs ! k))"
    by blast
  from len obtain x y z where rs: "rs = [x, y, z]"
    by (auto simp: length_Suc_conv)
  from each [rule_format, of 0] f0 g0 have "parseAnalysisResponse metrics_answer ''a.ts'' = Inr x"
    by (simp add: rs)
  then have x: "x = \<lparr>raw_file = ''a.ts'', raw_issues = JArr [], raw_suggestions = JArr [],
             raw_metrics =
               JObj [(''complexity'', JNum 4 0), (''maintainabilityIndex'', JNum 80 0),
                     (''performance'', JStr ''good''), (''security'', JStr ''secure'')]\<rparr>"
    by (simp add: metrics_answer_parsed)
  from each [rule_format, of 1] f1 have y: "y = neutralResult ''b.ts''"
    by (simp add: rs)
  from each [rule_format, of 2] f2 have z: "z = neutralResult ''c.ts''"
    by (simp add: rs numeral_2_eq_2)
  from run have l: "analyzeFiles ?w 0 ?files False =
       Inr [\<lparr>raw_file = ''a.ts'', raw_issues = JArr [], raw_suggestions = JArr [],
             raw_metrics =
               JObj [(''complexity'', JNum 4 0), (''maintainabilityIndex'', JNum 80 0),
                     (''performance'', JStr ''good''), (''security'', JStr ''secure'')]\<rparr>,
            neutralResult ''b.ts'',
            neutralResult ''c.ts'']"
    unfolding rs x y z .
  from c r cl g0 g1 g2 f0 f1 f2 l show ?thesis by (intro conjI)
qed

text \<open>
  The claim as stated fails: the content of a file is read before the \<open>try\<close> block, so a
  file that cannot be read ends the loop, and the second file, whose own analysis would
  have returned a result, gets none.
\<close>

theorem read_failure_aborts_batch:
  "fs_readFile unreadable_world ''a.ts'' = Inl (IOError ''EACCES'')
   \<and> analyzeFile unreadable_world 0 ''a.ts'' False = Inl (IOError ''EACCES'')
   \<and> analyzeFile unreadable_world 1 ''b.ts'' False = Inr (neutralResult ''b.ts'')
   \<and> analyzeFiles unreadable_world 0 [''a.ts'', ''b.ts''] False = Inl (IOError ''EACCES'')"
  by (simp add: unreadable_world_def quiet_world_def analyzeFile_def analyzeFile_try_def)

text \<open>
  C4, as amended. The summary reports the number of results, the total number of issues
  and of suggestions summed over all results, and the arithmetic means of complexity and
  of maintainabilityIndex over all results, the placeholders of failed files included.
\<close>

theorem summary_totals_and_means:
  "filesAnalyzed (displayResults rs) = length rs
   \<and> totalIssues (displayResults rs) = sum_list (map (\<lambda>r. length (issues r)) rs)
   \<and> totalSuggestions (displayResults rs) = sum_list (map (\<lambda>r. length (suggestions r)) rs)
   \<and> (rs \<noteq> [] \<longrightarrow>
        avgComplexity (displayResults rs)
          = Fin (sum_list (map (\<lambda>r. complexity (metrics r)) rs) / of_nat (length rs))
        \<and> avgMaintainability (displayResults rs)
          = Fin (sum_list (map (\<lambda>r. maintainabilityIndex (metrics r)) rs)
                 / of_nat (length rs)))"
  by (simp add: displayResults_eq js_div_def)

theorem summary_totals_and_means_witness:
  "[\<lparr>result_file = ''a.ts'',
      issues = [\<lparr>issue_line = 3, issue_column = 1, issue_severity = SevWarning,
                 issue_message = ''unused variable'', issue_type = Style\<rparr>],
      suggestions = [],
      metrics = \<lparr>complexity = 4, maintainabilityIndex = 80, testCoverage = None,
                 performance = Good, security = Secure\<rparr>\<rparr>,
     \<lparr>result_file = ''b.ts'', issues = [], suggestions = [],
      metrics = \<lparr>complexity = 0, maintainabilityIndex = 50, testCoverage = None,
                 performance = Fair, security = Moderate\<rparr>\<rparr>] \<noteq> []
   \<and> displayResults
     [\<lparr>result_file = ''a.ts'',
      issues = [\<lparr>issue_line = 3, issue_column = 1, issue_severity = SevWarning,
                 issue_message = ''unused variable'', issue_type = Style\<rparr>],
      suggestions = [],
      metrics = \<lparr>complexity = 4, maintainabilityIndex = 80, testCoverage = None,
                 performance = Good, security = Secure\<rparr>\<rparr>,
     \<lparr>result_file = ''b.ts'', issues = [], suggestions = [],
      metrics = \<lparr>complexity = 0, maintainabilityIndex = 50, testCoverage = None,
                 performance = Fair, security = Moderate\<rparr>\<rparr>]
     = \<lparr>filesAnalyzed = 2, totalIssues = 1, totalSuggestions = 0, avgComplexity = Fin 2,
        avgMaintainability = Fin 65\<rparr>"
proof -
  let ?rs = "[\<lparr>result_file = ''a.ts'',
      issues = [\<lparr>issue_line = 3, issue_column = 1, issue_severity = SevWarning,
                 issue_message = ''unused variable'', issue_type = Style\<rparr>],
      suggestions = [],
      metrics = \<lparr>complexity = 4, maintainabilityIndex = 80, testCoverage = None,
                 performance = Good, security = Secure\<rparr>\<rparr>,
     \<lparr>result_file = ''b.ts'', issues = [], suggestions = [],
      metrics = \<lparr>complexity = 0, maintainabilityIndex = 50, testCoverage = None,
                 performance = Fair, security = Moderate\<rparr>\<rparr>]"
  have ne: "?rs \<noteq> []" by simp
  from summary_totals_and_means [of ?rs] ne
  have "filesAnalyzed (displayResults ?rs) = 2"
    and "totalIssues (displayResults ?rs) = 1"
    and "totalSuggestions (displayResults ?rs) = 0"
    and "avgComplexity (displayResults ?rs) = Fin 2"
    and "avgMaintainability (displayResults ?rs) = Fin 65"
    by simp_all
  then have "displayResults ?rs
     = \<lparr>filesAnalyzed = 2, totalIssues = 1, totalSuggestions = 0, avgComplexity = Fin 2,
        avgMaintainability = Fin 65\<rparr>"
    by (cases "displayResults ?rs") simp
  with ne show ?thesis by (intro conjI)
qed

text \<open>
  The claim as stated fails: the placeholder of a failed file is counted in the averages.
  In a batch of two files where the oracle fails for the second, the reported averages are
  2 and 65, while the means over the successfully analyzed file alone are 4 and 80.
\<close>

theorem averages_include_placeholders:
  "analyzeFiles one_failure_world 0 [''a.ts'', ''b.ts''] False =
     Inr [\<lparr>raw_file = ''a.ts'', raw_issues = JArr [], raw_suggestions = JArr [],
           raw_metrics =
             JObj [(''complexity'', JNum 4 0), (''maintainabilityIndex'', JNum 80 0),
                   (''performance'', JStr ''good''), (''security'', JStr ''secure'')]\<rparr>,
          neutralResult ''b.ts'']
   \<and> analysis_succeeded one_failure_world 0 ''a.ts''
   \<and> \<not> analysis_succeeded one_failure_world 1 ''b.ts''
   \<and> as_AnalysisResult
       \<lparr>raw_file = ''a.ts'', raw_issues = JArr [], raw_suggestions = JArr [],
        raw_metrics =
          JObj [(''complexity'', JNum 4 0), (''maintainabilityIndex'', JNum 80 0),
                (''performance'', JStr ''good''), (''security'', JStr ''secure'')]\<rparr>
     = Some \<lparr>result_file = ''a.ts'', issues = [], suggestions = [],
             metrics = \<lparr>complexity = 4, maintainabilityIndex = 80, testCoverage = None,
                        performance = Good, security = Secure\<rparr>\<rparr>
   \<and> as_AnalysisResult (neutralResult ''b.ts'')
     = Some \<lparr>result_file = ''b.ts'', issues = [], suggestions = [],
             metrics = \<lparr>complexity = 0, maintainabilityIndex = 50, testCoverage = None,
                        performance = Fair, security = Moderate\<rparr>\<rparr>
   \<and> avgComplexity (displayResults
       [\<lparr>result_file = ''a.ts'', issues = [], suggestions = [],
         metrics = \<lparr>complexity = 4, maintainabilityIndex = 80, testCoverage = None,
                    performance = Good, security = Secure\<rparr>\<rparr>,
        \<lparr>result_file = ''b.ts'', issues = [], suggestions = [],
         metrics = \<lparr>complexity = 0, maintainabilityIndex = 50, testCoverage = None,
                    performance = Fair, security = Moderate\<rparr>\<rparr>]) = Fin 2
   \<and> mean_of_successful (\<lambda>r. complexity (metrics r))
       [(True, \<lparr>result_file = ''a.ts'', issues = [], suggestions = [],
         metrics = \<lparr>complexity = 4, maintainabilityIndex = 80, testCoverage = None,
                    performance = Good, security = Secure\<rparr>\<rparr>),
        (False, \<lparr>result_file = ''b.ts'', issues = [], suggestions = [],
         metrics = \<lparr>complexity = 0, maintainabilityIndex = 50, testCoverage = None,
                    performance = Fair, security = Moderate\<rparr>\<rparr>)] = Fin 4
   \<and> avgMaintainability (displayResults
       [\<lparr>result_file = ''a.ts'', issues = [], suggestions = [],
         metrics = \<lparr>complexity = 4, maintainabilityIndex = 80, testCoverage = None,
                    performance = Good, security = Secure\<rparr>\<rparr>,
        \<lparr>result_file = ''b.ts'', issues = [], suggestions = [],
         metrics = \<lparr>complexity = 0, maintainabilityIndex = 50, testCoverage = None,
                    performance = Fair, security = Moderate\<rparr>\<rparr>]) = Fin 65
   \<and> mean_of_successful (\<lambda>r. maintainabilityIndex (metrics r))
       [(True, \<lparr>result_file = ''a.ts'', issues = [], suggestions = [],
         metrics = \<lparr>complexity = 4, maintainabilityIndex = 80, testCoverage = None,
                    performance = Good, security = Secure\<rparr>\<rparr>),
        (False, \<lparr>result_file = ''b.ts'', issues = [], suggestions = [],
         metrics = \<lparr>complexity = 0, maintainabilityIndex = 50, testCoverage = None,
                    performance = Fair, security = Moderate\<rparr>\<rparr>)] = Fin 80"
proof -
  have 1: "avgComplexity (displayResults
       [\<lparr>result_file = ''a.ts'', issues = [], suggestions = [],
         metrics = \<lparr>complexity = 4, maintainabilityIndex = 80, testCoverage = None,
                    performance = Good, security = Secure\<rparr>\<rparr>,
        \<lparr>result_file = ''b.ts'', issues = [], suggestions = [],
         metrics = \<lparr>complexity = 0, maintainabilityIndex = 50, testCoverage = None,
                    performance = Fair, security = Moderate\<rparr>\<rparr>]) = Fin 2"
    by (simp add: displayResults_def js_div_def)
  have 2: "mean_of_successful (\<lambda>r. complexity (metrics r))
       [(True, \<lparr>result_file = ''a.ts'', issues = [], suggestions = [],
         metrics = \<lparr>complexity = 4, maintainabilityIndex = 80, testCoverage = None,
                    performance = Good, security = Secure\<rparr>\<rparr>),
        (False, \<lparr>result_file = ''b.ts'', issues = [], suggestions = [],
         metrics = \<lparr>complexity = 0, maintainabilityIndex = 50, testCoverage = None,
                    performance = Fair, security = Moderate\<rparr>\<rparr>)] = Fin 4"
    by (simp add: mean_of_successful_def js_div_def)
  have 3: "avgMaintainability (displayResults
       [\<lparr>result_file = ''a.ts'', issues = [], suggestions = [],
         metrics = \<lparr>complexity = 4, maintainabilityIndex = 80, testCoverage = None,
                    performance = Good, security = Secure\<rparr>\<rparr>,
        \<lparr>result_file = ''b.ts'', issues = [], suggestions = [],
         metrics = \<lparr>complexity = 0, maintainabilityIndex = 50, testCoverage = None,
                    performance = Fair, security = Moderate\<rparr>\<rparr>]) = Fin 65"
    by (simp add: displayResults_def js_div_def)
  have 4: "mean_of_successful (\<lambda>r. maintainabilityIndex (metrics r))
       [(True, \<lparr>result_file = ''a.ts'', issues = [], suggestions = [],
         metrics = \<lparr>complexity = 4, maintainabilityIndex = 80, testCoverage = None,
                    performance = Good, security = Secure\<rparr>\<rparr>),
        (False, \<lparr>result_file = ''b.ts'', issues = [], suggestions = [],
         metrics = \<lparr>complexity = 0, maintainabilityIndex = 50, testCoverage = None,
                    performance = Fair, security = Moderate\<rparr>\<rparr>)] = Fin 80"
    by (simp add: mean_of_successful_def js_div_def)
  from one_failure_flags have f1: "analysis_succeeded one_failure_world 0 ''a.ts''"
    and f2: "\<not> analysis_succeeded one_failure_world 1 ''b.ts''"
    by simp_all
  from one_failure_batch f1 f2 metrics_answer_typed as_AnalysisResult_neutral [of "''b.ts''"]
    1 2 3 4
  show ?thesis by (intro conjI)
qed

text \<open>
  C10. For the empty list of results the division of the summary is a division of zero by
  zero: both averages are \<open>NaN\<close>, no number and no error; and a directory without code
  files gives the empty list.
\<close>

theorem summary_of_empty_batch:
  "displayResults [] =
     \<lparr>filesAnalyzed = 0, totalIssues = 0, totalSuggestions = 0, avgComplexity = NaN,
      avgMaintainability = NaN\<rparr>
   \<and> js_div 0 0 = NaN
   \<and> analyzeFiles w i [] full = Inr []
   \<and> (fs_stat w target = Inr False \<and> getCodeFiles w target = Inr [] \<longrightarrow>
        analyzeCodebase w target full = Inr [])"
  by (simp add: displayResults_empty js_div_def analyzeCodebase_def)

theorem summary_of_empty_batch_witness:
  "fs_stat quiet_world ''src'' = Inr False
   \<and> getCodeFiles quiet_world ''src'' = Inr []
   \<and> analyzeCodebase quiet_world ''src'' True = Inr []
   \<and> avgComplexity (displayResults []) = NaN
   \<and> avgMaintainability (displayResults []) = NaN"
proof -
  have s: "fs_stat quiet_world ''src'' = Inr False"
    and g: "getCodeFiles quiet_world ''src'' = Inr []"
    by (simp_all add: quiet_world_def)
  note t = summary_of_empty_batch [of quiet_world 0 True "''src''"]
  from t s g have a: "analyzeCodebase quiet_world ''src'' True = Inr []"
    by blast
  from t have "displayResults [] =
     \<lparr>filesAnalyzed = 0, totalIssues = 0, totalSuggestions = 0, avgComplexity = NaN,
      avgMaintainability = NaN\<rparr>"
    by (rule conjunct1)
  then have "avgComplexity (displayResults []) = NaN"
    and "avgMaintainability (displayResults []) = NaN"
    by simp_all
  with s g a show ?thesis by (intro conjI)
qed

text \<open>
  C9. Unless the backup option is \<open>false\<close>, the backup of the content that was read is
  written before the oracle is consulted, before the human is asked and before the file is
  overwritten: in every run no such event happens before the backup write, and none at
  all when the file could not be read. When the file can be accessed and read and the
  backup can be written, the run starts with access, read and backup write, whatever the
  other options, the oracle and the human answer.
\<close>

theorem backup_precedes_oracle_and_overwrite:
  assumes "backup opts \<noteq> Some False"
  shows "(case fs_readFile w f of
            Inl e \<Rightarrow> list_all (\<lambda>ev. \<not> needs_backup f ev) (fst (handleEditCommand w f p opts))
          | Inr c \<Rightarrow>
              not_before (FsWrite (backupPath w f) c) (needs_backup f)
                (fst (handleEditCommand w f p opts))
              \<and> (fs_access w f = Inr () \<and> fs_writeFile w (backupPath w f) c = Inr () \<longrightarrow>
                   take 3 (fst (handleEditCommand w f p opts))
                     = [FsAccess f, FsRead f, FsWrite (backupPath w f) c]))"
proof (cases "fs_readFile w f")
  case (Inl e)
  with handleEditCommand_no_read [of w f e p opts] show ?thesis by simp
next
  case (Inr c)
  have "take 3 (fst (handleEditCommand w f p opts))
          = [FsAccess f, FsRead f, FsWrite (backupPath w f) c]"
    if "fs_access w f = Inr ()" and "fs_writeFile w (backupPath w f) c = Inr ()"
  proof -
    from handleEditCommand_backup_written [OF assms that(1) Inr that(2), of p]
    obtain ev where "fst (handleEditCommand w f p opts)
           = [FsAccess f, FsRead f, FsWrite (backupPath w f) c] @ ev"
      by blast
    then show ?thesis by simp
  qed
  with handleEditCommand_backup_first [OF assms Inr, of p] Inr show ?thesis
    by simp
qed

lemma edit_world_analysis:
  "analyzeAndGenerateEdits edit_world ''a.ts'' ''let x = 1'' None =
     ([OracleCall],
      Inr (JObj [(''language'', JStr ''typescript''), (''complexity'', JNum 2 0),
                (''suggestions'',
                 JArr [JObj [(''originalLines'', JArr [JStr ''let x = 1'']),
                             (''suggestedLines'', JArr [JStr ''const x = 1'']),
                             (''startLine'', JNum 1 0), (''endLine'', JNum 1 0),
                             (''reasoning'', JStr ''never reassigned''),
                             (''confidence'', JNum 90 0)]]),
                (''risks'', JArr []), (''dependencies'', JArr [])]))"
  by (simp add: analyzeAndGenerateEdits_def analyzeAndGenerateEdits_try_def edit_world_def
      quiet_world_def edit_answer_parsed edit_answer_not_empty)

lemma edit_world_analysis_rejecting:
  "analyzeAndGenerateEdits (edit_world\<lparr>confirmProceed := Inr False\<rparr>) ''a.ts''
     ''let x = 1'' None
   = analyzeAndGenerateEdits edit_world ''a.ts'' ''let x = 1'' None"
  by (simp add: analyzeAndGenerateEdits_def analyzeAndGenerateEdits_try_def edit_world_def
      quiet_world_def)

lemma backupPath_edit: "backupPath edit_world ''a.ts'' = ''a.ts.backup.1700000000000''"
  using backupPath_quiet by (simp add: backupPath_def edit_world_def)

lemma backupPath_rejecting:
  "backupPath (edit_world\<lparr>confirmProceed := Inr False\<rparr>) ''a.ts''
     = ''a.ts.backup.1700000000000''"
  using backupPath_quiet by (simp add: backupPath_def edit_world_def)

lemma run_dry:
  "handleEditCommand edit_world ''a.ts'' ''use const''
     \<lparr>dryRun = Some True, backup = None, autoApply = None, contextOption = None\<rparr>
   = ([FsAccess ''a.ts'', FsRead ''a.ts'',
       FsWrite ''a.ts.backup.1700000000000'' ''let x = 1'', OracleCall], Returned)"
proof -
  have a: "fs_access edit_world ''a.ts'' = Inr ()"
    and r: "fs_readFile edit_world ''a.ts'' = Inr ''let x = 1''"
    and w: "fs_writeFile edit_world ''a.ts.backup.1700000000000'' ''let x = 1'' = Inr ()"
    by (simp_all add: edit_world_def quiet_world_def)
  show ?thesis
    by (simp add: handleEditCommand_def handleEditCommand_rest_def a r w backupPath_edit
        edit_world_analysis edit_answer_typed)
qed

lemma run_rejected:
  "handleEditCommand (edit_world\<lparr>confirmProceed := Inr False\<rparr>) ''a.ts'' ''use const''
     \<lparr>dryRun = None, backup = Some True, autoApply = None, contextOption = None\<rparr>
   = ([FsAccess ''a.ts'', FsRead ''a.ts'',
       FsWrite ''a.ts.backup.1700000000000'' ''let x = 1'', OracleCall, HitlConfirm],
      Returned)"
proof -
  have a: "fs_access edit_world ''a.ts'' = Inr ()"
    and r: "fs_readFile edit_world ''a.ts'' = Inr ''let x = 1''"
    and w: "fs_writeFile edit_world ''a.ts.backup.1700000000000'' ''let x = 1'' = Inr ()"
    by (simp_all add: edit_world_def quiet_world_def)
  show ?thesis
    by (simp add: handleEditCommand_def handleEditCommand_rest_def a r w
        backupPath_rejecting edit_world_analysis_rejecting edit_world_analysis
        edit_answer_typed)
qed

lemma run_applied:
  "handleEditCommand edit_world ''a.ts'' ''use const''
     \<lparr>dryRun = None, backup = None, autoApply = Some True, contextOption = None\<rparr>
   = ([FsAccess ''a.ts'', FsRead ''a.ts'',
       FsWrite ''a.ts.backup.1700000000000'' ''let x = 1'', OracleCall,
       FsWrite ''a.ts'' ''const x = 1'', SessionSave], Returned)"
proof -
  have a: "fs_access edit_world ''a.ts'' = Inr ()"
    and r: "fs_readFile edit_world ''a.ts'' = Inr ''let x = 1''"
    and w: "fs_writeFile edit_world p c = Inr ()"
    and s: "saveSession edit_world = Inr ()" for p c
    by (simp_all add: edit_world_def quiet_world_def)
  have l: "split_nl ''let x = 1'' = [''let x = 1'']"
    by simp
  show ?thesis
    by (simp add: handleEditCommand_def handleEditCommand_rest_def a r w s backupPath_edit
        edit_world_analysis edit_answer_typed edit_answer_applied [unfolded l])
qed

lemma run_no_suggestions:
  "handleEditCommand quiet_world ''a.ts'' ''use const''
     \<lparr>dryRun = None, backup = None, autoApply = Some True, contextOption = None\<rparr>
   = ([FsAccess ''a.ts'', FsRead ''a.ts'',
       FsWrite ''a.ts.backup.1700000000000'' ''let x = 1'', OracleCall], Returned)"
proof -
  have a: "fs_access quiet_world ''a.ts'' = Inr ()"
    and r: "fs_readFile quiet_world ''a.ts'' = Inr ''let x = 1''"
    and w: "fs_writeFile quiet_world p c = Inr ()"
    and g: "generateContent quiet_world 0 = Inr None"
    and cr: "clientReady quiet_world 0 = Inr ()"
    and cfg: "contentGeneratorConfig quiet_world" for p c
    by (simp_all add: quiet_world_def)
  show ?thesis
    by (simp add: handleEditCommand_def handleEditCommand_rest_def a r w backupPath_quiet
        analyzeAndGenerateEdits_def analyzeAndGenerateEdits_try_def g cr cfg
        as_FileAnalysis_fallback)
qed

theorem backup_precedes_oracle_and_overwrite_witness:
  "backup \<lparr>dryRun = Some True, backup = None, autoApply = None, contextOption = None\<rparr>
     \<noteq> Some False
   \<and> fs_readFile edit_world ''a.ts'' = Inr ''let x = 1''
   \<and> fs_access edit_world ''a.ts'' = Inr ()
   \<and> fs_writeFile edit_world (backupPath edit_world ''a.ts'') ''let x = 1'' = Inr ()
   \<and> not_before (FsWrite (backupPath edit_world ''a.ts'') ''let x = 1'') (needs_backup ''a.ts'')
       (fst (handleEditCommand edit_world ''a.ts'' ''use const''
          \<lparr>dryRun = Some True, backup = None, autoApply = None, contextOption = None\<rparr>))
   \<and> take 3 (fst (handleEditCommand edit_world ''a.ts'' ''use const''
          \<lparr>dryRun = Some True, backup = None, autoApply = None, contextOption = None\<rparr>))
       = [FsAccess ''a.ts'', FsRead ''a.ts'',
          FsWrite (backupPath edit_world ''a.ts'') ''let x = 1'']
   \<and> handleEditCommand edit_world ''a.ts'' ''use const''
       \<lparr>dryRun = Some True, backup = None, autoApply = None, contextOption = None\<rparr>
     = ([FsAccess ''a.ts'', FsRead ''a.ts'',
         FsWrite ''a.ts.backup.1700000000000'' ''let x = 1'', OracleCall], Returned)
   \<and> handleEditCommand (edit_world\<lparr>confirmProceed := Inr False\<rparr>) ''a.ts'' ''use const''
       \<lparr>dryRun = None, backup = Some True, autoApply = None, contextOption = None\<rparr>
     = ([FsAccess ''a.ts'', FsRead ''a.ts'',
         FsWrite ''a.ts.backup.1700000000000'' ''let x = 1'', OracleCall, HitlConfirm],
        Returned)
   \<and> handleEditCommand quiet_world ''a.ts'' ''use const''
       \<lparr>dryRun = None, backup = None, autoApply = Some True, contextOption = None\<rparr>
     = ([FsAccess ''a.ts'', FsRead ''a.ts'',
         FsWrite ''a.ts.backup.1700000000000'' ''let x = 1'', OracleCall], Returned)
   \<and> handleEditCommand edit_world ''a.ts'' ''use const''
       \<lparr>dryRun = None, backup = None, autoApply = Some True, contextOption = None\<rparr>
     = ([FsAccess ''a.ts'', FsRead ''a.ts'',
         FsWrite ''a.ts.backup.1700000000000'' ''let x = 1'', OracleCall,
         FsWrite ''a.ts'' ''const x = 1'', SessionSave], Returned)"
proof -
  let ?opts = "\<lparr>dryRun = Some True, backup = None, autoApply = None, contextOption = None\<rparr>"
  have b: "backup ?opts \<noteq> Some False" by simp
  have r: "fs_readFile edit_world ''a.ts'' = Inr ''let x = 1''"
    and a: "fs_access edit_world ''a.ts'' = Inr ()"
    and w: "fs_writeFile edit_world (backupPath edit_world ''a.ts'') ''let x = 1'' = Inr ()"
    by (simp_all add: edit_world_def quiet_world_def)
  from backup_precedes_oracle_and_overwrite
    [OF b, where w = edit_world and f = "''a.ts''" and p = "''use const''"]
  have t: "not_before (FsWrite (backupPath edit_world ''a.ts'') ''let x = 1'')
             (needs_backup ''a.ts'')
             (fst (handleEditCommand edit_world ''a.ts'' ''use const'' ?opts))
           \<and> (fs_access edit_world ''a.ts'' = Inr ()
               \<and> fs_writeFile edit_world (backupPath edit_world ''a.ts'') ''let x = 1'' = Inr ()
               \<longrightarrow> take 3 (fst (handleEditCommand edit_world ''a.ts'' ''use const'' ?opts))
                     = [FsAccess ''a.ts'', FsRead ''a.ts'',
                        FsWrite (backupPath edit_world ''a.ts'') ''let x = 1''])"
    unfolding r by simp
  from t have 1: "not_before (FsWrite (backupPath edit_world ''a.ts'') ''let x = 1'')
             (needs_backup ''a.ts'')
             (fst (handleEditCommand edit_world ''a.ts'' ''use const'' ?opts))"
    by (rule conjunct1)
  from t a w have 2: "take 3 (fst (handleEditCommand edit_world ''a.ts'' ''use const'' ?opts))
                     = [FsAccess ''a.ts'', FsRead ''a.ts'',
                        FsWrite (backupPath edit_world ''a.ts'') ''let x = 1'']"
    by blast
  from b r a w 1 2 run_dry run_rejected run_no_suggestions run_applied
  show ?thesis by (intro conjI)
qed

end
